theory Spec2Isabelle
  imports Main "HOL-Library.Word"
begin

section \<open>LinkedIn OAuth verification flow of LinkClaws\<close>

text \<open>
  A shallow embedding of \<^verbatim>\<open>convex/lib/linkedin.ts\<close> and of the Convex functions
  \<^verbatim>\<open>startVerification\<close>, \<^verbatim>\<open>completeVerification\<close>, \<^verbatim>\<open>validateState\<close>,
  \<^verbatim>\<open>completeLinkedInOAuthAction\<close> and \<^verbatim>\<open>getVerificationStatus\<close>.

  Conventions of the model:
  \<^item> a JavaScript string is a \<open>string\<close> of bytes (its UTF-8 encoding);
  \<^item> \<^verbatim>\<open>Date.now()\<close> is an \<open>int\<close> handed to the function that reads the clock;
  \<^item> an optional field is an \<open>option\<close>, \<^verbatim>\<open>undefined\<close> being \<open>None\<close>;
  \<^item> the database is passed in and returned; a table is the list of its documents in
    creation order, which is the order an index yields documents that agree on the
    indexed field, so \<^verbatim>\<open>.first()\<close> is the first match of the list;
  \<^item> every failure the source returns as \<^verbatim>\<open>{success: false, error}\<close> is a constructor
    carrying the error string of the source.
\<close>

subsection \<open>lib/linkedin.ts: constants\<close>

definition LINKEDIN_AUTH_URL :: string where
  "LINKEDIN_AUTH_URL = ''https://www.linkedin.com/oauth/v2/authorization''"

definition LINKEDIN_TOKEN_URL :: string where
  "LINKEDIN_TOKEN_URL = ''https://www.linkedin.com/oauth/v2/accessToken''"

definition LINKEDIN_USERINFO_URL :: string where
  "LINKEDIN_USERINFO_URL = ''https://api.linkedin.com/v2/userinfo''"

definition LINKEDIN_SCOPES :: "string list" where
  "LINKEDIN_SCOPES = [''openid'', ''profile'', ''email'']"

definition STATE_EXPIRATION_MS :: int where
  "STATE_EXPIRATION_MS = 15 * 60 * 1000"

subsection \<open>JavaScript string primitives\<close>

text \<open>\<^verbatim>\<open>s.charAt(k)\<close>: the one-character string at position \<open>k\<close>, the empty string
  out of range.\<close>

definition charAt :: "string \<Rightarrow> nat \<Rightarrow> string" where
  "charAt s k = (if k < length s then [s ! k] else [])"

text \<open>\<^verbatim>\<open>xs.join(sep)\<close>.\<close>

fun join :: "string \<Rightarrow> string list \<Rightarrow> string" where
  "join sep [] = []"
| "join sep [x] = x"
| "join sep (x # y # ys) = x @ sep @ join sep (y # ys)"

text \<open>The decimal rendering of a non-negative integer in a template literal.\<close>

fun string_of_nat :: "nat \<Rightarrow> string" where
  "string_of_nat n =
     (if n < 10 then [char_of (48 + n)]
      else string_of_nat (n div 10) @ [char_of (48 + n mod 10)])"

text \<open>
  \<^verbatim>\<open>URLSearchParams.prototype.toString\<close> is the application/x-www-form-urlencoded
  serializer of the URL standard: a byte that is an ASCII letter or digit or one of
  \<^verbatim>\<open>* - . _\<close> stands for itself, a space becomes \<^verbatim>\<open>+\<close>, every other byte becomes
  \<^verbatim>\<open>%XX\<close> with upper-case hexadecimal digits; pairs are written \<^verbatim>\<open>name=value\<close> and
  joined by \<^verbatim>\<open>&\<close> in insertion order.
\<close>

definition ascii_alphanumeric :: "char \<Rightarrow> bool" where
  "ascii_alphanumeric c =
     (let n = (of_char c :: nat)
      in (48 \<le> n \<and> n \<le> 57) \<or> (65 \<le> n \<and> n \<le> 90) \<or> (97 \<le> n \<and> n \<le> 122))"

definition urlencoded_safe :: "char \<Rightarrow> bool" where
  "urlencoded_safe c = (ascii_alphanumeric c \<or> c \<in> set ''*-._'')"

definition hex_digit :: "nat \<Rightarrow> char" where
  "hex_digit n = ''0123456789ABCDEF'' ! (n mod 16)"

definition urlencode_byte :: "char \<Rightarrow> string" where
  "urlencode_byte c =
     (if urlencoded_safe c then [c]
      else if c = CHR '' '' then ''+''
      else [CHR ''%'', hex_digit (of_char c div 16), hex_digit (of_char c mod 16)])"

definition urlencode :: "string \<Rightarrow> string" where
  "urlencode s = concat (map urlencode_byte s)"

definition URLSearchParams_toString :: "(string \<times> string) list \<Rightarrow> string" where
  "URLSearchParams_toString ps =
     join ''&'' (map (\<lambda>(k, v). urlencode k @ ''='' @ urlencode v) ps)"

subsection \<open>lib/linkedin.ts: state token and authorization URL\<close>

text \<open>
  \<^verbatim>\<open>generateOAuthState\<close>. The 32 bytes that \<^verbatim>\<open>crypto.getRandomValues\<close> writes into
  the \<^verbatim>\<open>Uint8Array(32)\<close> are the argument. Reading a typed array beyond its length
  gives \<^verbatim>\<open>undefined\<close>, \<^verbatim>\<open>undefined % n\<close> is \<^verbatim>\<open>NaN\<close>, and \<^verbatim>\<open>charAt(NaN)\<close> is
  \<^verbatim>\<open>charAt(0)\<close>.
\<close>

definition chars :: string where
  "chars = ''ABCDEFGHIJKLMNOPQRSTUVWXYZabcdefghijklmnopqrstuvwxyz0123456789''"

definition randomIndex :: "8 word list \<Rightarrow> nat \<Rightarrow> nat" where
  "randomIndex randomValues i =
     (if i < length randomValues then unat (randomValues ! i) mod length chars else 0)"

definition generateOAuthState :: "8 word list \<Rightarrow> string" where
  "generateOAuthState randomValues =
     foldl (\<lambda>result i. result @ charAt chars (randomIndex randomValues i)) [] [0..<32]"

definition buildLinkedInAuthUrl :: "string \<Rightarrow> string \<Rightarrow> string \<Rightarrow> string" where
  "buildLinkedInAuthUrl clientId redirectUri state =
     LINKEDIN_AUTH_URL @ ''?'' @ URLSearchParams_toString
       [(''response_type'', ''code''),
        (''client_id'', clientId),
        (''redirect_uri'', redirectUri),
        (''state'', state),
        (''scope'', join '' '' LINKEDIN_SCOPES)]"

subsection \<open>The database\<close>

type_synonym agent_id = nat
type_synonym request_id = nat

text \<open>The fields of an \<^verbatim>\<open>agents\<close> document that the verification flow reads or
  writes.\<close>

record agent =
  handle :: string
  verified :: bool
  verificationType :: string
  verificationData :: "string option"
  verificationTier :: string
  linkedinId :: "string option"
  linkedinName :: "string option"
  linkedinVerifiedAt :: "int option"
  inviteCodesRemaining :: "int option"
  canInvite :: bool
  updatedAt :: int

text \<open>A \<^verbatim>\<open>linkedinVerificationRequests\<close> document; \<open>rid\<close> is its \<^verbatim>\<open>_id\<close>.\<close>

record request =
  rid :: request_id
  agentId :: agent_id
  state :: string
  createdAt :: int
  expiresAt :: int
  completedAt :: "int option"
  error :: "string option"

record activity =
  log_agentId :: agent_id
  log_action :: string
  log_description :: string
  log_requiresApproval :: bool
  log_createdAt :: int

text \<open>\<open>nextRequestId\<close> is the identifier the next inserted request receives.\<close>

record db =
  agents :: "agent_id \<rightharpoonup> agent"
  requests :: "request list"
  nextRequestId :: request_id
  activityLog :: "activity list"

text \<open>\<^verbatim>\<open>ctx.db.delete(id)\<close>, \<^verbatim>\<open>ctx.db.patch(id, fields)\<close> and \<^verbatim>\<open>ctx.db.insert\<close> on
  the table of requests, and \<^verbatim>\<open>ctx.db.patch\<close> on an agent. The source patches only
  documents it has read in the same transaction; for an agent that does not exist, where
  Convex would throw, \<open>patchAgent\<close> returns the database as it is.\<close>

definition deleteRequest :: "request_id \<Rightarrow> db \<Rightarrow> db" where
  "deleteRequest i d = d\<lparr>requests := filter (\<lambda>r. rid r \<noteq> i) (requests d)\<rparr>"

definition patchRequest :: "request_id \<Rightarrow> (request \<Rightarrow> request) \<Rightarrow> db \<Rightarrow> db" where
  "patchRequest i f d =
     d\<lparr>requests := map (\<lambda>r. if rid r = i then f r else r) (requests d)\<rparr>"

definition insertRequest :: "agent_id \<Rightarrow> string \<Rightarrow> int \<Rightarrow> int \<Rightarrow> db \<Rightarrow> db" where
  "insertRequest a s created expires d =
     d\<lparr>requests := requests d @
          [\<lparr>rid = nextRequestId d, agentId = a, state = s, createdAt = created,
            expiresAt = expires, completedAt = None, error = None\<rparr>],
       nextRequestId := Suc (nextRequestId d)\<rparr>"

definition patchAgent :: "agent_id \<Rightarrow> (agent \<Rightarrow> agent) \<Rightarrow> db \<Rightarrow> db" where
  "patchAgent a f d =
     (case agents d a of
        None \<Rightarrow> d
      | Some ag \<Rightarrow> d\<lparr>agents := (agents d)(a \<mapsto> f ag)\<rparr>)"

text \<open>\<^verbatim>\<open>.withIndex("by_state", q => q.eq("state", s)).first()\<close>.\<close>

definition firstByState :: "request list \<Rightarrow> string \<Rightarrow> request option" where
  "firstByState rs s = find (\<lambda>r. state r = s) rs"

text \<open>\<^verbatim>\<open>.withIndex("by_agentId", q => q.eq("agentId", a))
  .filter(q => q.eq(q.field("completedAt"), undefined)).collect()\<close>.\<close>

definition pendingRequests :: "request list \<Rightarrow> agent_id \<Rightarrow> request list" where
  "pendingRequests rs a = filter (\<lambda>r. agentId r = a \<and> completedAt r = None) rs"

text \<open>JavaScript truthiness of an optional number (\<^verbatim>\<open>if (request.completedAt)\<close>) and
  falsiness of an optional string (\<^verbatim>\<open>!clientId\<close>).\<close>

definition truthy_number :: "int option \<Rightarrow> bool" where
  "truthy_number v = (case v of None \<Rightarrow> False | Some n \<Rightarrow> n \<noteq> 0)"

definition falsy_string :: "string option \<Rightarrow> bool" where
  "falsy_string v = (case v of None \<Rightarrow> True | Some s \<Rightarrow> s = [])"

text \<open>\<^verbatim>\<open>process.env\<close>: the three settings of the provider.\<close>

record env =
  LINKEDIN_CLIENT_ID :: "string option"
  LINKEDIN_CLIENT_SECRET :: "string option"
  LINKEDIN_REDIRECT_URI :: "string option"

subsection \<open>startVerification\<close>

datatype start_result =
  StartSuccess (authorizationUrl: string) (expiresIn: int) (message: string)
| StartFailure string

text \<open>
  \<^verbatim>\<open>verifyApiKey\<close> of \<^verbatim>\<open>lib/utils\<close> is a parameter: any function from the database
  and the key to an optional agent identifier. \<open>randomValues\<close> are the bytes of the
  random source and \<open>now\<close> is the clock. Past the check of the settings each of them
  is present and not empty, which is where \<open>the\<close> reads them.
\<close>

definition startVerification ::
  "(db \<Rightarrow> string \<Rightarrow> agent_id option) \<Rightarrow> env \<Rightarrow> 8 word list \<Rightarrow> int \<Rightarrow> string \<Rightarrow> db
     \<Rightarrow> db \<times> start_result" where
  "startVerification verifyApiKey e randomValues now apiKey d =
     (case verifyApiKey d apiKey of
        None \<Rightarrow> (d, StartFailure ''Invalid API key'')
      | Some aid \<Rightarrow>
         (case agents d aid of
            None \<Rightarrow> (d, StartFailure ''Agent not found'')
          | Some ag \<Rightarrow>
             if verificationType ag = ''linkedin'' \<and> verified ag
             then (d, StartFailure ''Agent is already LinkedIn verified'')
             else if falsy_string (LINKEDIN_CLIENT_ID e) \<or> falsy_string (LINKEDIN_CLIENT_SECRET e)
                     \<or> falsy_string (LINKEDIN_REDIRECT_URI e)
             then (d, StartFailure ''LinkedIn OAuth not configured. Please set LINKEDIN_CLIENT_ID, LINKEDIN_CLIENT_SECRET, and LINKEDIN_REDIRECT_URI.'')
             else
               let st = generateOAuthState randomValues;
                   expires = now + STATE_EXPIRATION_MS;
                   pending = pendingRequests (requests d) aid;
                   d1 = foldl (\<lambda>d' r. deleteRequest (rid r) d') d pending;
                   d2 = insertRequest aid st now expires d1;
                   url = buildLinkedInAuthUrl (the (LINKEDIN_CLIENT_ID e))
                           (the (LINKEDIN_REDIRECT_URI e)) st
               in (d2, StartSuccess url (STATE_EXPIRATION_MS div 1000)
                     ''Have the agent owner visit this URL to complete LinkedIn verification'')))"

subsection \<open>completeVerification and validateState\<close>

datatype complete_result =
  CompleteSuccess (res_agentId: agent_id) (res_agentHandle: string) (res_linkedinName: string)
| CompleteFailure string

datatype validate_result =
  Valid agent_id
| Invalid string

definition completeVerification ::
  "int \<Rightarrow> string \<Rightarrow> string \<Rightarrow> string \<Rightarrow> db \<Rightarrow> db \<times> complete_result" where
  "completeVerification now st lid lname d =
     (case firstByState (requests d) st of
        None \<Rightarrow> (d, CompleteFailure ''Invalid or expired state token'')
      | Some req \<Rightarrow>
         if now > expiresAt req
         then (patchRequest (rid req) (\<lambda>r. r\<lparr>error := Some ''State token expired''\<rparr>) d,
               CompleteFailure ''Verification request expired'')
         else if truthy_number (completedAt req)
         then (d, CompleteFailure ''Verification already completed'')
         else
           (case agents d (agentId req) of
              None \<Rightarrow>
                (patchRequest (rid req) (\<lambda>r. r\<lparr>error := Some ''Agent not found''\<rparr>) d,
                 CompleteFailure ''Agent not found'')
            | Some ag \<Rightarrow>
                let d1 = patchRequest (rid req) (\<lambda>r. r\<lparr>completedAt := Some now\<rparr>) d;
                    isNewlyVerified = (verificationTier ag \<noteq> ''verified'');
                    d2 = patchAgent (agentId req)
                           (\<lambda>a. a\<lparr>verified := True,
                                  verificationType := ''linkedin'',
                                  verificationData := Some lid,
                                  verificationTier := ''verified'',
                                  linkedinId := Some lid,
                                  linkedinName := Some lname,
                                  linkedinVerifiedAt := Some now,
                                  updatedAt := now\<rparr>) d1;
                    d3 = (if isNewlyVerified
                          then
                            let currentCodes =
                                  (case inviteCodesRemaining ag of None \<Rightarrow> 0 | Some n \<Rightarrow> n)
                            in patchAgent (agentId req)
                                 (\<lambda>a. a\<lparr>inviteCodesRemaining := Some (max currentCodes 3),
                                        canInvite := True\<rparr>) d2
                          else d2);
                    d4 = d3\<lparr>activityLog := activityLog d3 @
                           [\<lparr>log_agentId = agentId req,
                             log_action = ''linkedin_verified'',
                             log_description = ''Agent verified via LinkedIn as '' @ lname,
                             log_requiresApproval = False,
                             log_createdAt = now\<rparr>]\<rparr>
                in (d4, CompleteSuccess (agentId req) (handle ag) lname)))"

definition validateState :: "int \<Rightarrow> string \<Rightarrow> db \<Rightarrow> validate_result" where
  "validateState now st d =
     (case firstByState (requests d) st of
        None \<Rightarrow> Invalid ''Invalid or expired state token''
      | Some req \<Rightarrow>
         if now > expiresAt req then Invalid ''Verification request expired''
         else if truthy_number (completedAt req) then Invalid ''Verification already completed''
         else
           (case agents d (agentId req) of
              None \<Rightarrow> Invalid ''Agent not found''
            | Some ag \<Rightarrow> Valid (agentId req)))"

subsection \<open>lib/linkedin.ts: the token exchange client\<close>

text \<open>
  What a \<^verbatim>\<open>catch\<close> clause can receive: an \<^verbatim>\<open>Error\<close> object with its message, or
  any other thrown value.
\<close>

datatype thrown = ErrorObject string | OtherValue

text \<open>
  \<^verbatim>\<open>response.json() as Promise<...>\<close> is a cast that checks nothing, so the parsed body
  is whatever the provider sent. A field read from it is \<^verbatim>\<open>undefined\<close>, a string, or
  some other value, which is kept as the text \<^verbatim>\<open>String\<close> gives for it. The body is
  \<^verbatim>\<open>null\<close>, on which reading a property throws a \<^verbatim>\<open>TypeError\<close>, or it is a value
  whose properties can be read (for a number, a string or a boolean every one of them is
  \<^verbatim>\<open>undefined\<close>).
\<close>

datatype js_value = JsUndefined | JsString string | JsOther string

datatype 'a json = JsonNull | JsonObject 'a

text \<open>A value inside a template literal.\<close>

definition to_template :: "js_value \<Rightarrow> string" where
  "to_template v =
     (case v of JsUndefined \<Rightarrow> ''undefined'' | JsString s \<Rightarrow> s | JsOther s \<Rightarrow> s)"

text \<open>
  The message of the \<^verbatim>\<open>TypeError\<close> for reading the property \<open>p\<close> of \<^verbatim>\<open>null\<close>. It is
  the engine's; Convex functions run on V8, whose wording this is.
\<close>

definition null_read_message :: "string \<Rightarrow> string" where
  "null_read_message p =
     ''Cannot read properties of null (reading '' @ [CHR 0x27] @ p @ [CHR 0x27] @ '')''"

text \<open>
  An HTTP response as the client reads it: \<^verbatim>\<open>ok\<close>, \<^verbatim>\<open>status\<close>, and the outcomes of
  \<^verbatim>\<open>text()\<close> and of \<^verbatim>\<open>json()\<close>, each of which may throw.
\<close>

record 'a response =
  resp_ok :: bool
  resp_status :: nat
  resp_text :: "thrown + string"
  resp_json :: "thrown + 'a json"

text \<open>The fields the source reads from the two bodies.\<close>

record token_response =
  access_token :: js_value

record profile =
  sub :: js_value
  name :: js_value

text \<open>
  The outside world: what \<^verbatim>\<open>fetch\<close> answers to the POST at the token endpoint (given
  the form body) and to the GET at the user-info endpoint (given the Authorization
  header); each may throw instead.
\<close>

record network =
  fetch_token :: "string \<Rightarrow> thrown + token_response response"
  fetch_userinfo :: "string \<Rightarrow> thrown + profile response"

text \<open>A request sent to the provider, as recorded in the trace of outbound calls.\<close>

datatype outbound = TokenPost string | UserinfoGet string

definition exchangeCodeForToken ::
  "network \<Rightarrow> string \<Rightarrow> string \<Rightarrow> string \<Rightarrow> string
     \<Rightarrow> outbound list \<times> (thrown + token_response json)" where
  "exchangeCodeForToken net code clientId clientSecret redirectUri =
     (let params = URLSearchParams_toString
            [(''grant_type'', ''authorization_code''),
             (''code'', code),
             (''redirect_uri'', redirectUri),
             (''client_id'', clientId),
             (''client_secret'', clientSecret)]
      in ([TokenPost params],
          (case fetch_token net params of
             Inl t \<Rightarrow> Inl t
           | Inr r \<Rightarrow>
               if \<not> resp_ok r
               then (case resp_text r of
                       Inl t \<Rightarrow> Inl t
                     | Inr errorText \<Rightarrow>
                         Inl (ErrorObject (''LinkedIn token exchange failed: '' @
                                string_of_nat (resp_status r) @ '' - '' @ errorText)))
               else resp_json r)))"

definition fetchLinkedInProfile ::
  "network \<Rightarrow> js_value \<Rightarrow> outbound list \<times> (thrown + profile json)" where
  "fetchLinkedInProfile net accessToken =
     (let auth = ''Bearer '' @ to_template accessToken
      in ([UserinfoGet auth],
          (case fetch_userinfo net auth of
             Inl t \<Rightarrow> Inl t
           | Inr r \<Rightarrow>
               if \<not> resp_ok r
               then (case resp_text r of
                       Inl t \<Rightarrow> Inl t
                     | Inr errorText \<Rightarrow>
                         Inl (ErrorObject (''LinkedIn profile fetch failed: '' @
                                string_of_nat (resp_status r) @ '' - '' @ errorText)))
               else resp_json r)))"

text \<open>\<^verbatim>\<open>tokenResponse.access_token\<close> throws when the token body is \<^verbatim>\<open>null\<close>.\<close>

definition completeLinkedInOAuth ::
  "network \<Rightarrow> string \<Rightarrow> string \<Rightarrow> string \<Rightarrow> string
     \<Rightarrow> outbound list \<times> (thrown + profile json)" where
  "completeLinkedInOAuth net code clientId clientSecret redirectUri =
     (case exchangeCodeForToken net code clientId clientSecret redirectUri of
        (sent, Inl t) \<Rightarrow> (sent, Inl t)
      | (sent, Inr JsonNull) \<Rightarrow> (sent, Inl (ErrorObject (null_read_message ''access_token'')))
      | (sent, Inr (JsonObject tokenResponse)) \<Rightarrow>
          (case fetchLinkedInProfile net (access_token tokenResponse) of
             (sent', res) \<Rightarrow> (sent @ sent', res)))"

subsection \<open>completeLinkedInOAuthAction\<close>





subsection \<open>getVerificationStatus\<close>

record status =
  st_pending :: bool
  st_verified :: bool
  st_verificationType :: "string option"
  st_linkedinId :: "string option"
  st_linkedinName :: "string option"
  st_verifiedAt :: "int option"
  st_pendingExpiresAt :: "int option"

definition no_status :: status where
  "no_status =
     \<lparr>st_pending = False, st_verified = False, st_verificationType = None,
      st_linkedinId = None, st_linkedinName = None, st_verifiedAt = None,
      st_pendingExpiresAt = None\<rparr>"

definition getVerificationStatus ::
  "(db \<Rightarrow> string \<Rightarrow> agent_id option) \<Rightarrow> int \<Rightarrow> string \<Rightarrow> db \<Rightarrow> status" where
  "getVerificationStatus verifyApiKey now apiKey d =
     (case verifyApiKey d apiKey of
        None \<Rightarrow> no_status
      | Some aid \<Rightarrow>
         (case agents d aid of
            None \<Rightarrow> no_status
          | Some ag \<Rightarrow>
             if verificationType ag = ''linkedin'' \<and> verified ag
             then \<lparr>st_pending = False, st_verified = True,
                   st_verificationType = Some ''linkedin'',
                   st_linkedinId = linkedinId ag, st_linkedinName = linkedinName ag,
                   st_verifiedAt = linkedinVerifiedAt ag, st_pendingExpiresAt = None\<rparr>
             else
               (case find (\<lambda>r. expiresAt r > now) (pendingRequests (requests d) aid) of
                  Some pendingRequest \<Rightarrow>
                    no_status\<lparr>st_pending := True,
                              st_pendingExpiresAt := Some (expiresAt pendingRequest)\<rparr>
                | None \<Rightarrow> no_status)))"

subsection \<open>Properties stated over the model\<close>

text \<open>The number of requests of an agent that have no \<^verbatim>\<open>completedAt\<close>.\<close>

definition pendingCount :: "request list \<Rightarrow> agent_id \<Rightarrow> nat" where
  "pendingCount rs a = length (pendingRequests rs a)"

text \<open>A sequence of \<^verbatim>\<open>startVerification\<close> calls, each with its own environment,
  random bytes, clock reading and key; the results are dropped, the database is
  threaded through.\<close>

type_synonym start_call = "env \<times> 8 word list \<times> int \<times> string"

definition startSequence ::
  "(db \<Rightarrow> string \<Rightarrow> agent_id option) \<Rightarrow> start_call list \<Rightarrow> db \<Rightarrow> db" where
  "startSequence verifyApiKey calls d =
     foldl (\<lambda>d' (e, randomValues, now, apiKey).
              fst (startVerification verifyApiKey e randomValues now apiKey d')) d calls"

text \<open>The request a successful \<^verbatim>\<open>startVerification\<close> inserts.\<close>

definition newRequest :: "db \<Rightarrow> agent_id \<Rightarrow> 8 word list \<Rightarrow> int \<Rightarrow> request" where
  "newRequest d a randomValues now =
     \<lparr>rid = nextRequestId d, agentId = a, state = generateOAuthState randomValues,
      createdAt = now, expiresAt = now + STATE_EXPIRATION_MS, completedAt = None,
      error = None\<rparr>"

text \<open>All three settings of the provider are present and non-empty.\<close>

definition configured :: "env \<Rightarrow> bool" where
  "configured e =
     (\<not> falsy_string (LINKEDIN_CLIENT_ID e) \<and> \<not> falsy_string (LINKEDIN_CLIENT_SECRET e)
      \<and> \<not> falsy_string (LINKEDIN_REDIRECT_URI e))"

subsection \<open>Example data\<close>

definition agent_example :: agent where
  "agent_example =
     \<lparr>handle = ''claw'', verified = False, verificationType = ''none'',
      verificationData = None, verificationTier = ''unverified'', linkedinId = None,
      linkedinName = None, linkedinVerifiedAt = None, inviteCodesRemaining = Some 1,
      canInvite = False, updatedAt = 0\<rparr>"

definition request_example :: request where
  "request_example =
     \<lparr>rid = 0, agentId = 7, state = ''S'', createdAt = 1000, expiresAt = 901000,
      completedAt = None, error = None\<rparr>"

definition db_example :: db where
  "db_example =
     \<lparr>agents = [7 \<mapsto> agent_example], requests = [request_example], nextRequestId = 1,
      activityLog = []\<rparr>"

definition env_example :: env where
  "env_example =
     \<lparr>LINKEDIN_CLIENT_ID = Some ''id'', LINKEDIN_CLIENT_SECRET = Some ''secret'',
      LINKEDIN_REDIRECT_URI = Some ''https://a.b/cb''\<rparr>"

definition env_unset :: env where
  "env_unset =
     \<lparr>LINKEDIN_CLIENT_ID = None, LINKEDIN_CLIENT_SECRET = None,
      LINKEDIN_REDIRECT_URI = None\<rparr>"

text \<open>A resolver of credentials that knows the key \<^verbatim>\<open>key7\<close> of agent 7 only.\<close>

definition verifyApiKey_example :: "db \<Rightarrow> string \<Rightarrow> agent_id option" where
  "verifyApiKey_example d k = (if k = ''key7'' then Some 7 else None)"

text \<open>The same agent verified by e-mail, already on the verified tier.\<close>

definition agent_email_example :: agent where
  "agent_email_example =
     agent_example\<lparr>verified := True, verificationType := ''email'',
                   verificationTier := ''verified''\<rparr>"

definition db_email_example :: db where
  "db_email_example = db_example\<lparr>agents := [7 \<mapsto> agent_email_example]\<rparr>"

definition db_completed_example :: db where
  "db_completed_example =
     db_example\<lparr>requests := [request_example\<lparr>completedAt := Some 5000\<rparr>]\<rparr>"

text \<open>Thirty-two random bytes.\<close>

definition rv_example :: "8 word list" where
  "rv_example =
     [0, 1, 2, 3, 4, 5, 6, 7, 8, 9, 10, 11, 12, 13, 14, 15, 16, 17, 18, 19, 20, 21, 22, 23,
      24, 25, 26, 27, 28, 29, 30, 31]"

text \<open>The same agent after a LinkedIn verification, and a database without agents.\<close>

definition db_linkedin_example :: db where
  "db_linkedin_example =
     db_example\<lparr>agents :=
       [7 \<mapsto> agent_example\<lparr>verified := True, verificationType := ''linkedin'',
                             verificationTier := ''verified'',
                             linkedinId := Some ''abc123'',
                             linkedinName := Some ''Jane Doe'',
                             linkedinVerifiedAt := Some 5000\<rparr>]\<rparr>"

definition db_no_agent_example :: db where
  "db_no_agent_example = db_example\<lparr>agents := Map.empty\<rparr>"






section \<open>Lemmas about the database operations\<close>

lemma truthy_number_simps:
  "truthy_number None = False" "truthy_number (Some t) = (t \<noteq> 0)"
  by (simp_all add: truthy_number_def)

lemma firstByState_None: "firstByState rs st = None \<longleftrightarrow> (\<forall>r \<in> set rs. state r \<noteq> st)"
  by (auto simp: firstByState_def find_None_iff)

lemma firstByState_Some:
  "firstByState rs st = Some r \<Longrightarrow> r \<in> set rs \<and> state r = st"
  by (auto simp: firstByState_def find_Some_iff)

lemma firstByState_map:
  "(\<And>x. state (f x) = state x) \<Longrightarrow>
     firstByState (map f rs) st = map_option f (firstByState rs st)"
  by (induction rs) (simp_all add: firstByState_def)

section \<open>validateState and completeVerification, branch by branch\<close>

lemma validate_none:
  "\<forall>r \<in> set (requests d). state r \<noteq> st \<Longrightarrow>
     validateState now st d = Invalid ''Invalid or expired state token''"
  using firstByState_None[of "requests d" st] by (simp add: validateState_def)

lemma validate_expired:
  "firstByState (requests d) st = Some r \<Longrightarrow> expiresAt r < now \<Longrightarrow>
     validateState now st d = Invalid ''Verification request expired''"
  by (simp add: validateState_def)

lemma validate_completed:
  "firstByState (requests d) st = Some r \<Longrightarrow> \<not> expiresAt r < now \<Longrightarrow>
   truthy_number (completedAt r) \<Longrightarrow>
     validateState now st d = Invalid ''Verification already completed''"
  by (simp add: validateState_def)

lemma validate_no_agent:
  "firstByState (requests d) st = Some r \<Longrightarrow> \<not> expiresAt r < now \<Longrightarrow>
   \<not> truthy_number (completedAt r) \<Longrightarrow> agents d (agentId r) = None \<Longrightarrow>
     validateState now st d = Invalid ''Agent not found''"
  by (simp add: validateState_def)

lemma validate_valid:
  "firstByState (requests d) st = Some r \<Longrightarrow> \<not> expiresAt r < now \<Longrightarrow>
   \<not> truthy_number (completedAt r) \<Longrightarrow> agents d (agentId r) = Some ag \<Longrightarrow>
     validateState now st d = Valid (agentId r)"
  by (simp add: validateState_def)

lemma complete_none:
  "\<forall>r \<in> set (requests d). state r \<noteq> st \<Longrightarrow>
     completeVerification now st lid lname d =
       (d, CompleteFailure ''Invalid or expired state token'')"
  using firstByState_None[of "requests d" st] by (simp add: completeVerification_def)

lemma complete_expired:
  "firstByState (requests d) st = Some r \<Longrightarrow> expiresAt r < now \<Longrightarrow>
     completeVerification now st lid lname d =
       (patchRequest (rid r) (\<lambda>x. x\<lparr>error := Some ''State token expired''\<rparr>) d,
        CompleteFailure ''Verification request expired'')"
  by (simp add: completeVerification_def)

lemma complete_completed:
  "firstByState (requests d) st = Some r \<Longrightarrow> \<not> expiresAt r < now \<Longrightarrow>
   truthy_number (completedAt r) \<Longrightarrow>
     completeVerification now st lid lname d =
       (d, CompleteFailure ''Verification already completed'')"
  by (simp add: completeVerification_def)

lemma complete_no_agent:
  "firstByState (requests d) st = Some r \<Longrightarrow> \<not> expiresAt r < now \<Longrightarrow>
   \<not> truthy_number (completedAt r) \<Longrightarrow> agents d (agentId r) = None \<Longrightarrow>
     completeVerification now st lid lname d =
       (patchRequest (rid r) (\<lambda>x. x\<lparr>error := Some ''Agent not found''\<rparr>) d,
        CompleteFailure ''Agent not found'')"
  by (simp add: completeVerification_def)

lemma complete_success:
  "firstByState (requests d) st = Some r \<Longrightarrow> \<not> expiresAt r < now \<Longrightarrow>
   \<not> truthy_number (completedAt r) \<Longrightarrow> agents d (agentId r) = Some ag \<Longrightarrow>
     completeVerification now st lid lname d =
       (d\<lparr>requests :=
            map (\<lambda>x. if rid x = rid r then x\<lparr>completedAt := Some now\<rparr> else x) (requests d),
          agents := (agents d)(agentId r \<mapsto>
             ag\<lparr>verified := True, verificationType := ''linkedin'',
                verificationData := Some lid, verificationTier := ''verified'',
                linkedinId := Some lid, linkedinName := Some lname,
                linkedinVerifiedAt := Some now, updatedAt := now,
                inviteCodesRemaining :=
                  (if verificationTier ag \<noteq> ''verified''
                   then Some (max (case inviteCodesRemaining ag of None \<Rightarrow> 0 | Some n \<Rightarrow> n) 3)
                   else inviteCodesRemaining ag),
                canInvite := (verificationTier ag \<noteq> ''verified'' \<or> canInvite ag)\<rparr>),
          activityLog := activityLog d @
             [\<lparr>log_agentId = agentId r, log_action = ''linkedin_verified'',
               log_description = ''Agent verified via LinkedIn as '' @ lname,
               log_requiresApproval = False, log_createdAt = now\<rparr>]\<rparr>,
        CompleteSuccess (agentId r) (handle ag) lname)"
  by (simp add: completeVerification_def patchRequest_def patchAgent_def Let_def)

lemma complete_success_cases:
  assumes "completeVerification now st lid lname d = (d', CompleteSuccess a h n)"
  obtains r ag where "firstByState (requests d) st = Some r" "\<not> expiresAt r < now"
    "\<not> truthy_number (completedAt r)" "agents d (agentId r) = Some ag"
  using assms
  by (auto simp: completeVerification_def Let_def split: option.splits if_splits)

section \<open>The example data, evaluated\<close>

lemma example_first: "firstByState (requests db_example) ''S'' = Some request_example"
  by (simp add: firstByState_def db_example_def request_example_def)

lemma example_agent: "agents db_example (agentId request_example) = Some agent_example"
  by (simp add: db_example_def request_example_def)

lemma example_email_first:
  "firstByState (requests db_email_example) ''S'' = Some request_example"
  by (simp add: firstByState_def db_email_example_def db_example_def request_example_def)

lemma example_email_agent:
  "agents db_email_example (agentId request_example) = Some agent_email_example"
  by (simp add: db_email_example_def db_example_def request_example_def)

lemma example_completed_first:
  "firstByState (requests db_completed_example) ''S'' =
     Some (request_example\<lparr>completedAt := Some 5000\<rparr>)"
  by (simp add: firstByState_def db_completed_example_def db_example_def request_example_def)

lemma example_run:
  "completeVerification 5000 ''S'' ''abc123'' ''Jane Doe'' db_example =
     (db_example\<lparr>requests := [request_example\<lparr>completedAt := Some 5000\<rparr>],
        agents := [7 \<mapsto> agent_example\<lparr>verified := True, verificationType := ''linkedin'',
                verificationData := Some ''abc123'', verificationTier := ''verified'',
                linkedinId := Some ''abc123'', linkedinName := Some ''Jane Doe'',
                linkedinVerifiedAt := Some 5000, updatedAt := 5000,
                inviteCodesRemaining := Some 3, canInvite := True\<rparr>],
        activityLog := [\<lparr>log_agentId = 7, log_action = ''linkedin_verified'',
               log_description = ''Agent verified via LinkedIn as Jane Doe'',
               log_requiresApproval = False, log_createdAt = 5000\<rparr>]\<rparr>,
      CompleteSuccess 7 ''claw'' ''Jane Doe'')"
  using complete_success[OF example_first _ _ example_agent, of 5000 "''abc123''" "''Jane Doe''"]
  by (simp add: request_example_def truthy_number_simps db_example_def agent_example_def)

section \<open>startVerification, branch by branch, and the pending requests\<close>

lemma delete_loop:
  "foldl (\<lambda>d' r. deleteRequest (rid r) d') d ps =
     d\<lparr>requests := filter (\<lambda>x. rid x \<notin> rid ` set ps) (requests d)\<rparr>"
proof (induction ps arbitrary: d)
  case Nil
  then show ?case by simp
next
  case (Cons p ps)
  show ?case
    unfolding foldl_Cons Cons.IH
    by (simp add: deleteRequest_def conj_commute)
qed

lemma falsy_string_simps:
  "falsy_string None = True" "falsy_string (Some s) = (s = [])"
  by (simp_all add: falsy_string_def)

lemma expiresIn_900: "STATE_EXPIRATION_MS div 1000 = 900"
  by (simp add: STATE_EXPIRATION_MS_def)

lemma start_invalid_key:
  "verifyApiKey d apiKey = None \<Longrightarrow>
     startVerification verifyApiKey e rv now apiKey d = (d, StartFailure ''Invalid API key'')"
  by (simp add: startVerification_def)

lemma start_no_agent:
  "verifyApiKey d apiKey = Some aid \<Longrightarrow> agents d aid = None \<Longrightarrow>
     startVerification verifyApiKey e rv now apiKey d = (d, StartFailure ''Agent not found'')"
  by (simp add: startVerification_def)

lemma start_already_verified:
  "verifyApiKey d apiKey = Some aid \<Longrightarrow> agents d aid = Some ag \<Longrightarrow>
   verificationType ag = ''linkedin'' \<and> verified ag \<Longrightarrow>
     startVerification verifyApiKey e rv now apiKey d =
       (d, StartFailure ''Agent is already LinkedIn verified'')"
  by (simp add: startVerification_def)

lemma start_not_configured:
  "verifyApiKey d apiKey = Some aid \<Longrightarrow> agents d aid = Some ag \<Longrightarrow>
   \<not> (verificationType ag = ''linkedin'' \<and> verified ag) \<Longrightarrow> \<not> configured e \<Longrightarrow>
     startVerification verifyApiKey e rv now apiKey d =
       (d, StartFailure ''LinkedIn OAuth not configured. Please set LINKEDIN_CLIENT_ID, LINKEDIN_CLIENT_SECRET, and LINKEDIN_REDIRECT_URI.'')"
  by (auto simp: startVerification_def configured_def)

lemma start_success:
  "verifyApiKey d apiKey = Some aid \<Longrightarrow> agents d aid = Some ag \<Longrightarrow>
   \<not> (verificationType ag = ''linkedin'' \<and> verified ag) \<Longrightarrow> configured e \<Longrightarrow>
     startVerification verifyApiKey e rv now apiKey d =
       (d\<lparr>requests :=
            filter (\<lambda>x. rid x \<notin> rid ` set (pendingRequests (requests d) aid)) (requests d)
            @ [newRequest d aid rv now],
          nextRequestId := Suc (nextRequestId d)\<rparr>,
        StartSuccess
          (buildLinkedInAuthUrl (the (LINKEDIN_CLIENT_ID e)) (the (LINKEDIN_REDIRECT_URI e))
             (generateOAuthState rv))
          900 ''Have the agent owner visit this URL to complete LinkedIn verification'')"
  by (simp add: startVerification_def configured_def Let_def delete_loop insertRequest_def
      newRequest_def expiresIn_900)

lemma start_success_cases:
  assumes "startVerification verifyApiKey e rv now apiKey d = (d', StartSuccess url ex msg)"
  obtains aid ag where "verifyApiKey d apiKey = Some aid" "agents d aid = Some ag"
    "\<not> (verificationType ag = ''linkedin'' \<and> verified ag)" "configured e"
  using assms
  by (auto simp: startVerification_def configured_def Let_def split: option.splits if_splits)

lemma start_failure_unchanged:
  assumes "startVerification verifyApiKey e rv now apiKey d = (d', StartFailure err)"
  shows "d' = d"
  using assms
  by (auto simp: startVerification_def Let_def split: option.splits if_splits)

lemma pending_after_delete:
  "pendingRequests (filter (\<lambda>x. rid x \<notin> rid ` set (pendingRequests rs a)) rs) a = []"
  by (auto simp: pendingRequests_def filter_empty_conv)

lemma pending_filter_le:
  "length (pendingRequests (filter P rs) b) \<le> length (pendingRequests rs b)"
  unfolding pendingRequests_def
  by (induction rs) auto

lemma pending_append:
  "pendingRequests (rs @ [x]) b =
     pendingRequests rs b @ (if agentId x = b \<and> completedAt x = None then [x] else [])"
  by (simp add: pendingRequests_def)

lemma delete_pending_distinct:
  assumes "distinct (map rid rs)"
  shows "filter (\<lambda>x. rid x \<notin> rid ` set (pendingRequests rs a)) rs =
         filter (\<lambda>x. \<not> (agentId x = a \<and> completedAt x = None)) rs"
proof (rule filter_cong[OF refl])
  fix x assume x: "x \<in> set rs"
  from assms have inj: "inj_on rid (set rs)" by (simp add: distinct_map)
  show "(rid x \<notin> rid ` set (pendingRequests rs a)) = (\<not> (agentId x = a \<and> completedAt x = None))"
  proof
    assume "rid x \<notin> rid ` set (pendingRequests rs a)"
    with x show "\<not> (agentId x = a \<and> completedAt x = None)"
      by (auto simp: pendingRequests_def)
  next
    assume n: "\<not> (agentId x = a \<and> completedAt x = None)"
    show "rid x \<notin> rid ` set (pendingRequests rs a)"
    proof
      assume "rid x \<in> rid ` set (pendingRequests rs a)"
      then obtain y where y: "y \<in> set rs" "agentId y = a" "completedAt y = None" "rid y = rid x"
        by (auto simp: pendingRequests_def)
      with inj x have "y = x" by (auto dest: inj_onD)
      with y n show False by simp
    qed
  qed
qed

lemma start_step_invariant:
  assumes "\<forall>a. pendingCount (requests d) a \<le> 1"
  shows "\<forall>a. pendingCount (requests (fst (startVerification verifyApiKey e rv now apiKey d))) a \<le> 1"
proof (cases "startVerification verifyApiKey e rv now apiKey d")
  case (Pair d' res)
  show ?thesis
  proof (cases res)
    case (StartFailure err)
    with Pair have "d' = d" by (simp add: start_failure_unchanged)
    with Pair assms show ?thesis by simp
  next
    case (StartSuccess url ex msg)
    with Pair have "startVerification verifyApiKey e rv now apiKey d = (d', StartSuccess url ex msg)"
      by simp
    then obtain aid ag where pre: "verifyApiKey d apiKey = Some aid" "agents d aid = Some ag"
      "\<not> (verificationType ag = ''linkedin'' \<and> verified ag)" "configured e"
      by (rule start_success_cases)
    let ?kept = "filter (\<lambda>x. rid x \<notin> rid ` set (pendingRequests (requests d) aid)) (requests d)"
    have reqs: "requests (fst (startVerification verifyApiKey e rv now apiKey d)) =
        ?kept @ [newRequest d aid rv now]"
      by (simp add: start_success[where verifyApiKey = verifyApiKey, OF pre])
    show ?thesis
    proof
      fix a
      show "pendingCount (requests (fst (startVerification verifyApiKey e rv now apiKey d))) a \<le> 1"
      proof (cases "a = aid")
        case True
        then show ?thesis
          by (simp add: reqs pendingCount_def pending_append pending_after_delete)
      next
        case False
        have "length (pendingRequests ?kept a) \<le> length (pendingRequests (requests d) a)"
          by (rule pending_filter_le)
        also have "\<dots> \<le> 1" using assms by (simp add: pendingCount_def)
        finally show ?thesis using False
          by (simp add: reqs pendingCount_def pending_append newRequest_def)
      qed
    qed
  qed
qed

lemma start_sequence_invariant:
  "\<forall>a. pendingCount (requests d) a \<le> 1 \<Longrightarrow>
     \<forall>a. pendingCount (requests (startSequence verifyApiKey calls d)) a \<le> 1"
proof (induction calls arbitrary: d)
  case Nil
  then show ?case by (simp add: startSequence_def)
next
  case (Cons c calls)
  obtain e rv now apiKey where c: "c = (e, rv, now, apiKey)" by (cases c) auto
  have "startSequence verifyApiKey (c # calls) d =
      startSequence verifyApiKey calls (fst (startVerification verifyApiKey e rv now apiKey d))"
    by (simp add: startSequence_def c)
  with Cons.IH[OF start_step_invariant[OF Cons.prems]] show ?case by simp
qed

section \<open>The state token and the authorization URL\<close>

lemma foldl_append_concat:
  "foldl (\<lambda>result i. result @ f i) acc is = acc @ concat (map f is)"
  by (induction "is" arbitrary: acc) simp_all

lemma length_chars: "length chars = 62"
  by (simp add: chars_def)

lemma chars_alphanumeric: "\<forall>c \<in> set chars. ascii_alphanumeric c"
  by (simp add: chars_def ascii_alphanumeric_def)

lemma randomIndex_less: "randomIndex rv i < length chars"
  by (simp add: randomIndex_def length_chars)

lemma charAt_randomIndex: "charAt chars (randomIndex rv i) = [chars ! randomIndex rv i]"
  by (simp add: charAt_def randomIndex_less)

lemma generateOAuthState_map:
  "generateOAuthState rv = map (\<lambda>i. chars ! randomIndex rv i) [0..<32]"
  unfolding generateOAuthState_def foldl_append_concat charAt_randomIndex
  by simp

lemma length_generateOAuthState: "length (generateOAuthState rv) = 32"
  by (simp add: generateOAuthState_map)

lemma generateOAuthState_alphanumeric:
  "list_all ascii_alphanumeric (generateOAuthState rv)"
  unfolding generateOAuthState_map list_all_iff
  using chars_alphanumeric randomIndex_less by auto

lemma urlencode_Nil: "urlencode [] = []"
  by (simp add: urlencode_def)

lemma urlencode_Cons: "urlencode (c # s) = urlencode_byte c @ urlencode s"
  by (simp add: urlencode_def)

lemma urlencode_safe: "list_all urlencoded_safe s \<Longrightarrow> urlencode s = s"
  by (induction s) (simp_all add: urlencode_Nil urlencode_Cons urlencode_byte_def)

lemma urlencode_generateOAuthState: "urlencode (generateOAuthState rv) = generateOAuthState rv"
proof (rule urlencode_safe)
  show "list_all urlencoded_safe (generateOAuthState rv)"
    using generateOAuthState_alphanumeric[of rv]
    by (auto simp: list_all_iff urlencoded_safe_def)
qed

lemma urlencode_names:
  "urlencode ''response_type'' = ''response_type''"
  "urlencode ''code'' = ''code''"
  "urlencode ''client_id'' = ''client_id''"
  "urlencode ''redirect_uri'' = ''redirect_uri''"
  "urlencode ''state'' = ''state''"
  "urlencode ''scope'' = ''scope''"
  "urlencode ''openid profile email'' = ''openid+profile+email''"
  by code_simp+

lemma buildLinkedInAuthUrl_eq:
  "buildLinkedInAuthUrl clientId redirectUri st =
     ''https://www.linkedin.com/oauth/v2/authorization?response_type=code&client_id='' @
     urlencode clientId @ ''&redirect_uri='' @ urlencode redirectUri @
     ''&state='' @ urlencode st @ ''&scope=openid+profile+email''"
  by (simp add: buildLinkedInAuthUrl_def LINKEDIN_AUTH_URL_def URLSearchParams_toString_def
      LINKEDIN_SCOPES_def urlencode_names)

lemma example_key: "verifyApiKey_example d ''key7'' = Some 7"
  by (simp add: verifyApiKey_example_def)

lemma example_bad_key: "verifyApiKey_example d ''bad key'' = None"
  by (simp add: verifyApiKey_example_def)

lemma example_agent7: "agents db_example 7 = Some agent_example"
  by (simp add: db_example_def)

lemma example_not_linkedin:
  "\<not> (verificationType agent_example = ''linkedin'' \<and> verified agent_example)"
  by (simp add: agent_example_def)

lemma example_configured: "configured env_example"
  by (simp add: configured_def env_example_def falsy_string_simps)


lemma example_pending: "pendingRequests (requests db_example) 7 = [request_example]"
  by (simp add: pendingRequests_def db_example_def request_example_def)

lemma example_invariant: "pendingCount (requests db_example) a \<le> 1"
  by (simp add: pendingCount_def pendingRequests_def db_example_def)

lemma example_start:
  "startVerification verifyApiKey_example env_example rv_example 2000 ''key7'' db_example =
     (db_example\<lparr>requests := [newRequest db_example 7 rv_example 2000], nextRequestId := 2\<rparr>,
      StartSuccess
        (buildLinkedInAuthUrl ''id'' ''https://a.b/cb'' (generateOAuthState rv_example))
        900 ''Have the agent owner visit this URL to complete LinkedIn verification'')"
  unfolding start_success[where verifyApiKey = verifyApiKey_example, OF example_key example_agent7
      example_not_linkedin example_configured] example_pending
  by (simp add: db_example_def request_example_def env_example_def)

lemma unset_not_configured:
  "LINKEDIN_CLIENT_ID e = None \<or> LINKEDIN_CLIENT_SECRET e = None \<or> LINKEDIN_REDIRECT_URI e = None
     \<Longrightarrow> \<not> configured e"
  by (auto simp: configured_def falsy_string_simps)

lemma start_unconfigured_fails:
  assumes "\<not> configured e"
  shows "\<exists>err. startVerification verifyApiKey e rv now apiKey d = (d, StartFailure err)"
  using assms
  by (auto simp: startVerification_def configured_def split: option.splits)

lemma generateOAuthState_example:
  "generateOAuthState rv_example = ''ABCDEFGHIJKLMNOPQRSTUVWXYZabcdef''"
  by code_simp

lemma urlencode_example: "urlencode ''https://a.b/cb'' = ''https%3A%2F%2Fa.b%2Fcb''"
  "urlencode ''id'' = ''id''"
  by code_simp+

text \<open>The form-urlencoding loses nothing: two strings with the same encoding are equal.\<close>

lemma hex_digit_inj:
  assumes "a < 16" "b < 16" "hex_digit a = hex_digit b"
  shows "a = b"
proof -
  have d: "distinct ''0123456789ABCDEF''" by simp
  have l: "length ''0123456789ABCDEF'' = 16" by simp
  from assms have "''0123456789ABCDEF'' ! a = ''0123456789ABCDEF'' ! b"
    by (simp add: hex_digit_def)
  with d l assms(1,2) show ?thesis
    by (metis nth_eq_iff_index_eq)
qed

lemma safe_not_special:
  "urlencoded_safe c \<Longrightarrow> c \<noteq> CHR ''+'' \<and> c \<noteq> CHR ''%''"
  by (auto simp: urlencoded_safe_def ascii_alphanumeric_def)

lemma of_char_less_256: "(of_char c :: nat) < 256"
  by (cases c) (simp add: of_char_def bit_simps) 

lemma urlencode_byte_inj:
  assumes "urlencode_byte c @ u = urlencode_byte c' @ v"
  shows "c = c' \<and> u = v"
proof -
  have lt: "(of_char c :: nat) div 16 < 16" "(of_char c' :: nat) div 16 < 16"
    using of_char_less_256[of c] of_char_less_256[of c'] by arith+
  consider (safe) "urlencoded_safe c" | (space) "\<not> urlencoded_safe c" "c = CHR '' ''"
    | (other) "\<not> urlencoded_safe c" "c \<noteq> CHR '' ''" by blast
  then show ?thesis
  proof cases
    case safe
    with assms safe_not_special[of c] safe_not_special[of c'] show ?thesis
      by (auto simp: urlencode_byte_def split: if_splits)
  next
    case space
    with assms safe_not_special[of c'] show ?thesis
      by (auto simp: urlencode_byte_def split: if_splits)
  next
    case other
    with assms safe_not_special[of c'] have c': "\<not> urlencoded_safe c'" "c' \<noteq> CHR '' ''"
      and h: "hex_digit (of_char c div 16) = hex_digit (of_char c' div 16)"
         "hex_digit (of_char c mod 16) = hex_digit (of_char c' mod 16)" and uv: "u = v"
      by (auto simp: urlencode_byte_def split: if_splits)
    from h lt have "(of_char c :: nat) div 16 = of_char c' div 16"
      by (intro hex_digit_inj) simp_all
    moreover from h have "(of_char c :: nat) mod 16 = of_char c' mod 16"
      by (intro hex_digit_inj) simp_all
    ultimately have "(of_char c :: nat) = of_char c'"
      by (metis div_mult_mod_eq)
    then have "c = c'" by simp
    with uv show ?thesis by simp
  qed
qed

lemma urlencode_byte_not_Nil: "urlencode_byte c \<noteq> []"
  by (simp add: urlencode_byte_def)

lemma urlencode_inj: "urlencode s = urlencode t \<Longrightarrow> s = t"
proof (induction s arbitrary: t)
  case Nil
  then show ?case
    by (cases t) (simp_all add: urlencode_Nil urlencode_Cons urlencode_byte_not_Nil)
next
  case (Cons c s)
  show ?case
  proof (cases t)
    case Nil
    with Cons.prems show ?thesis
      by (simp add: urlencode_Nil urlencode_Cons urlencode_byte_not_Nil)
  next
    case (Cons c' t')
    with Cons.prems have "urlencode_byte c @ urlencode s = urlencode_byte c' @ urlencode t'"
      by (simp add: urlencode_Cons)
    then have "c = c'" "urlencode s = urlencode t'"
      using urlencode_byte_inj by blast+
    with Cons.IH Cons show ?thesis by simp
  qed
qed

section \<open>completeLinkedInOAuthAction, branch by branch\<close>











lemma oauth_token_null:
  "snd (exchangeCodeForToken net code cid sec ruri) = Inr JsonNull \<Longrightarrow>
     completeLinkedInOAuth net code cid sec ruri =
       (fst (exchangeCodeForToken net code cid sec ruri),
        Inl (ErrorObject (null_read_message ''access_token'')))"
  by (cases "exchangeCodeForToken net code cid sec ruri") (simp add: completeLinkedInOAuth_def)










section \<open>getVerificationStatus and the pending request\<close>

lemma find_filter: "find P (filter Q xs) = find (\<lambda>x. Q x \<and> P x) xs"
  by (induction xs) simp_all

lemma status_pending_find:
  "find (\<lambda>r. expiresAt r > now) (pendingRequests rs aid) =
     find (\<lambda>r. agentId r = aid \<and> completedAt r = None \<and> now < expiresAt r) rs"
  by (simp add: pendingRequests_def find_filter conj_assoc)

section \<open>The claims\<close>

text \<open>
  C1. On a database in which every agent has at most one request without
  \<^verbatim>\<open>completedAt\<close> (an empty table for one), every sequence of \<^verbatim>\<open>startVerification\<close>
  calls leaves at most one such request for every agent. A call that fails returns the
  database it was given. A call that succeeds for the agent \<open>aid\<close> deletes, by
  identifier, the requests of \<open>aid\<close> without \<^verbatim>\<open>completedAt\<close> and then appends one
  request, after which that request is the only one of \<open>aid\<close> without
  \<^verbatim>\<open>completedAt\<close>; identifiers being unique, the requests deleted are exactly those
  of \<open>aid\<close> without \<^verbatim>\<open>completedAt\<close>.
\<close>

theorem C1_at_most_one_pending_request:
  "((\<forall>a. pendingCount (requests d) a \<le> 1)
      \<longrightarrow> (\<forall>a. pendingCount (requests (startSequence verifyApiKey calls d)) a \<le> 1))
   \<and> (requests d = []
      \<longrightarrow> (\<forall>a. pendingCount (requests (startSequence verifyApiKey calls d)) a \<le> 1))
   \<and> (startVerification verifyApiKey e rv now apiKey d = (d', StartFailure err) \<longrightarrow> d' = d)
   \<and> (startVerification verifyApiKey e rv now apiKey d = (d', StartSuccess url ex msg)
      \<longrightarrow> (\<exists>aid. verifyApiKey d apiKey = Some aid
            \<and> requests d' =
                 filter (\<lambda>x. rid x \<notin> rid ` set (pendingRequests (requests d) aid)) (requests d)
                 @ [newRequest d aid rv now]
            \<and> pendingRequests (requests d') aid = [newRequest d aid rv now]
            \<and> (distinct (map rid (requests d))
               \<longrightarrow> requests d' =
                     filter (\<lambda>x. \<not> (agentId x = aid \<and> completedAt x = None)) (requests d)
                     @ [newRequest d aid rv now])))"
proof (intro conjI impI)
  assume "\<forall>a. pendingCount (requests d) a \<le> 1"
  then show "\<forall>a. pendingCount (requests (startSequence verifyApiKey calls d)) a \<le> 1"
    by (rule start_sequence_invariant)
next
  assume "requests d = []"
  then have "\<forall>a. pendingCount (requests d) a \<le> 1"
    by (simp add: pendingCount_def pendingRequests_def)
  then show "\<forall>a. pendingCount (requests (startSequence verifyApiKey calls d)) a \<le> 1"
    by (rule start_sequence_invariant)
next
  assume "startVerification verifyApiKey e rv now apiKey d = (d', StartFailure err)"
  then show "d' = d" by (rule start_failure_unchanged)
next
  assume run: "startVerification verifyApiKey e rv now apiKey d = (d', StartSuccess url ex msg)"
  then obtain aid ag where pre: "verifyApiKey d apiKey = Some aid" "agents d aid = Some ag"
      "\<not> (verificationType ag = ''linkedin'' \<and> verified ag)" "configured e"
    by (rule start_success_cases)
  let ?kept = "filter (\<lambda>x. rid x \<notin> rid ` set (pendingRequests (requests d) aid)) (requests d)"
  from run start_success[where verifyApiKey = verifyApiKey, OF pre, of rv now]
  have reqs: "requests d' = ?kept @ [newRequest d aid rv now]"
    by auto
  have one: "pendingRequests (requests d') aid = [newRequest d aid rv now]"
    by (simp add: reqs pending_append pending_after_delete newRequest_def)
  have "distinct (map rid (requests d)) \<longrightarrow>
      requests d' = filter (\<lambda>x. \<not> (agentId x = aid \<and> completedAt x = None)) (requests d)
        @ [newRequest d aid rv now]"
    using reqs by (simp add: delete_pending_distinct)
  with pre(1) reqs one
  show "\<exists>aid. verifyApiKey d apiKey = Some aid
      \<and> requests d' = filter (\<lambda>x. rid x \<notin> rid ` set (pendingRequests (requests d) aid)) (requests d)
           @ [newRequest d aid rv now]
      \<and> pendingRequests (requests d') aid = [newRequest d aid rv now]
      \<and> (distinct (map rid (requests d))
         \<longrightarrow> requests d' = filter (\<lambda>x. \<not> (agentId x = aid \<and> completedAt x = None)) (requests d)
               @ [newRequest d aid rv now])"
    by blast
qed

theorem C1_witness:
  "(\<forall>a. pendingCount (requests (startSequence verifyApiKey_example
        [(env_example, rv_example, 2000, ''key7''), (env_unset, rv_example, 2500, ''key7''),
         (env_example, rv_example, 3000, ''key7'')] db_example)) a \<le> 1)
   \<and> (\<forall>a. pendingCount (requests (startSequence verifyApiKey_example
        [(env_example, rv_example, 2000, ''key7''), (env_example, rv_example, 3000, ''key7'')]
        (db_example\<lparr>requests := []\<rparr>))) a \<le> 1)
   \<and> startVerification verifyApiKey_example env_example rv_example 2000 ''bad key'' db_example =
        (db_example, StartFailure ''Invalid API key'')
   \<and> requests db_example = [request_example]
   \<and> requests (fst (startVerification verifyApiKey_example env_example rv_example 2000
        ''key7'' db_example)) = [newRequest db_example 7 rv_example 2000]
   \<and> pendingRequests (requests (fst (startVerification verifyApiKey_example env_example
        rv_example 2000 ''key7'' db_example))) 7 = [newRequest db_example 7 rv_example 2000]"
proof -
  note c1 = C1_at_most_one_pending_request[where verifyApiKey = verifyApiKey_example]
  have inv: "\<forall>a. pendingCount (requests db_example) a \<le> 1"
    using example_invariant by blast
  have a: "\<forall>a. pendingCount (requests (startSequence verifyApiKey_example
        [(env_example, rv_example, 2000, ''key7''), (env_unset, rv_example, 2500, ''key7''),
         (env_example, rv_example, 3000, ''key7'')] db_example)) a \<le> 1"
    using c1[where d = db_example] inv by blast
  have empty: "requests (db_example\<lparr>requests := []\<rparr>) = []"
    by simp
  have b: "\<forall>a. pendingCount (requests (startSequence verifyApiKey_example
        [(env_example, rv_example, 2000, ''key7''), (env_example, rv_example, 3000, ''key7'')]
        (db_example\<lparr>requests := []\<rparr>))) a \<le> 1"
    using c1[where d = "db_example\<lparr>requests := []\<rparr>"] empty by blast
  have "\<exists>d'. startVerification verifyApiKey_example env_example rv_example 2000 ''bad key''
      db_example = (d', StartFailure ''Invalid API key'')"
    using start_invalid_key[where verifyApiKey = verifyApiKey_example, OF example_bad_key]
    by blast
  then have fail: "startVerification verifyApiKey_example env_example rv_example 2000 ''bad key''
      db_example = (db_example, StartFailure ''Invalid API key'')"
    using c1[where d = db_example and e = env_example and rv = rv_example and now = 2000
        and apiKey = "''bad key''" and err = "''Invalid API key''"]
    by blast
  have dist: "distinct (map rid (requests db_example))"
    by (simp add: db_example_def)
  have c: "requests (fst (startVerification verifyApiKey_example env_example rv_example 2000
        ''key7'' db_example)) = [newRequest db_example 7 rv_example 2000]
      \<and> pendingRequests (requests (fst (startVerification verifyApiKey_example env_example
           rv_example 2000 ''key7'' db_example))) 7 = [newRequest db_example 7 rv_example 2000]"
    using c1[where d = db_example and e = env_example and rv = rv_example and now = 2000
        and apiKey = "''key7''" and d' = "fst (startVerification verifyApiKey_example env_example
           rv_example 2000 ''key7'' db_example)"] example_start dist example_key
    by (auto simp: db_example_def request_example_def)
  have reqs: "requests db_example = [request_example]"
    by (simp add: db_example_def)
  from a b fail c reqs show ?thesis by blast
qed

text \<open>
  C2. A request whose \<^verbatim>\<open>completedAt\<close> is set and which is not expired: a further
  \<^verbatim>\<open>completeVerification\<close> with its state returns \<^verbatim>\<open>Verification already completed\<close>
  and the database it returns is the database it was given, so neither the request nor
  the agent (completion time, verification fields, invite allowance) changes. "Set" is
  the source's own test \<^verbatim>\<open>if (request.completedAt)\<close>: present and not zero, as every
  \<^verbatim>\<open>Date.now()\<close> reading after the epoch is. The second conjunct is the duplicate
  callback itself: after a completion that succeeded at a clock reading other than zero,
  a second completion with the same state, before the expiry, fails in this way and
  leaves the database of the first completion as it is.
\<close>

theorem C2_already_completed_is_idempotent:
  "(firstByState (requests d) st = Some r \<and> truthy_number (completedAt r) \<and> now \<le> expiresAt r
      \<longrightarrow> completeVerification now st lid lname d =
            (d, CompleteFailure ''Verification already completed''))
   \<and> (completeVerification now1 st lid1 lname1 d = (d1, CompleteSuccess a h n) \<and> now1 \<noteq> 0
        \<and> firstByState (requests d) st = Some r \<and> now2 \<le> expiresAt r
      \<longrightarrow> completeVerification now2 st lid2 lname2 d1 =
            (d1, CompleteFailure ''Verification already completed''))"
proof (intro conjI impI)
  assume "firstByState (requests d) st = Some r \<and> truthy_number (completedAt r) \<and> now \<le> expiresAt r"
  then show "completeVerification now st lid lname d =
      (d, CompleteFailure ''Verification already completed'')"
    by (simp add: complete_completed)
next
  assume h: "completeVerification now1 st lid1 lname1 d = (d1, CompleteSuccess a h n) \<and> now1 \<noteq> 0
      \<and> firstByState (requests d) st = Some r \<and> now2 \<le> expiresAt r"
  then have run: "completeVerification now1 st lid1 lname1 d = (d1, CompleteSuccess a h n)"
    and found: "firstByState (requests d) st = Some r" and "now1 \<noteq> 0" and live: "now2 \<le> expiresAt r"
    by simp_all
  from run found obtain ag where pre: "\<not> expiresAt r < now1" "\<not> truthy_number (completedAt r)"
      "agents d (agentId r) = Some ag"
    by (auto elim: complete_success_cases)
  let ?f = "\<lambda>x. if rid x = rid r then x\<lparr>completedAt := Some now1\<rparr> else x"
  from complete_success[OF found pre, of lid1 lname1] run
  have reqs: "requests d1 = map ?f (requests d)"
    by auto
  have "firstByState (map ?f (requests d)) st = map_option ?f (firstByState (requests d) st)"
    by (rule firstByState_map) simp
  with found reqs have found1: "firstByState (requests d1) st = Some (r\<lparr>completedAt := Some now1\<rparr>)"
    by simp
  show "completeVerification now2 st lid2 lname2 d1 =
      (d1, CompleteFailure ''Verification already completed'')"
    using live \<open>now1 \<noteq> 0\<close>
    by (intro complete_completed[OF found1]) (simp_all add: truthy_number_simps)
qed

theorem C2_witness:
  "completeVerification 6000 ''S'' ''abc123'' ''Jane Doe'' db_completed_example =
     (db_completed_example, CompleteFailure ''Verification already completed'')
   \<and> (\<exists>d1. completeVerification 5000 ''S'' ''abc123'' ''Jane Doe'' db_example =
              (d1, CompleteSuccess 7 ''claw'' ''Jane Doe'')
           \<and> completeVerification 6000 ''S'' ''abc123'' ''Jane Doe'' d1 =
              (d1, CompleteFailure ''Verification already completed''))"
proof -
  have h1: "firstByState (requests db_completed_example) ''S'' =
        Some (request_example\<lparr>completedAt := Some 5000\<rparr>)
      \<and> truthy_number (completedAt (request_example\<lparr>completedAt := Some 5000\<rparr>))
      \<and> 6000 \<le> expiresAt (request_example\<lparr>completedAt := Some 5000\<rparr>)"
    by (simp add: example_completed_first truthy_number_simps request_example_def)
  obtain d1 where run: "completeVerification 5000 ''S'' ''abc123'' ''Jane Doe'' db_example =
      (d1, CompleteSuccess 7 ''claw'' ''Jane Doe'')"
    using example_run by blast
  have h2: "completeVerification 5000 ''S'' ''abc123'' ''Jane Doe'' db_example =
        (d1, CompleteSuccess 7 ''claw'' ''Jane Doe'') \<and> (5000::int) \<noteq> 0
      \<and> firstByState (requests db_example) ''S'' = Some request_example
      \<and> 6000 \<le> expiresAt request_example"
    by (simp add: run example_first request_example_def)
  from C2_already_completed_is_idempotent[of db_completed_example "''S''"
      "request_example\<lparr>completedAt := Some 5000\<rparr>" 6000 "''abc123''" "''Jane Doe''"] h1
  have a: "completeVerification 6000 ''S'' ''abc123'' ''Jane Doe'' db_completed_example =
     (db_completed_example, CompleteFailure ''Verification already completed'')"
    by blast
  from C2_already_completed_is_idempotent[where d = db_example and st = "''S''"
      and r = request_example and ?now1.0 = 5000 and ?lid1.0 = "''abc123''"
      and ?lname1.0 = "''Jane Doe''" and ?d1.0 = d1 and a = 7 and h = "''claw''"
      and n = "''Jane Doe''" and ?now2.0 = 6000 and ?lid2.0 = "''abc123''"
      and ?lname2.0 = "''Jane Doe''"] h2
  have b: "completeVerification 6000 ''S'' ''abc123'' ''Jane Doe'' d1 =
      (d1, CompleteFailure ''Verification already completed'')"
    by blast
  from a b run show ?thesis by blast
qed

text \<open>
  C3. A live request: found by its state, not past its expiry, not completed, its agent
  \<open>ag\<close> present. \<^verbatim>\<open>completeVerification\<close> succeeds; the request gets
  \<^verbatim>\<open>completedAt = now\<close>; the agent gets \<^verbatim>\<open>verified = true\<close>,
  \<^verbatim>\<open>verificationType = "linkedin"\<close>, \<^verbatim>\<open>verificationTier = "verified"\<close> and the identity
  of the provider. Whether the invite allowance changes is decided by the tier of \<open>ag\<close>,
  the agent as it was before the call: if that tier is not \<^verbatim>\<open>verified\<close>, the allowance
  becomes the maximum of the current one (zero when absent) and 3 and \<^verbatim>\<open>canInvite\<close>
  becomes true; if it is \<^verbatim>\<open>verified\<close>, both stay as they were.
\<close>

theorem C3_completion_updates_request_and_agent:
  assumes "firstByState (requests d) st = Some r" and "now \<le> expiresAt r"
    and "\<not> truthy_number (completedAt r)" and "agents d (agentId r) = Some ag"
  shows "\<exists>d' ag'.
     completeVerification now st lid lname d = (d', CompleteSuccess (agentId r) (handle ag) lname)
     \<and> requests d' =
          map (\<lambda>x. if rid x = rid r then x\<lparr>completedAt := Some now\<rparr> else x) (requests d)
     \<and> r\<lparr>completedAt := Some now\<rparr> \<in> set (requests d')
     \<and> agents d' (agentId r) = Some ag'
     \<and> verified ag' \<and> verificationType ag' = ''linkedin'' \<and> verificationTier ag' = ''verified''
     \<and> verificationData ag' = Some lid \<and> linkedinId ag' = Some lid
     \<and> linkedinName ag' = Some lname \<and> linkedinVerifiedAt ag' = Some now
     \<and> (if verificationTier ag \<noteq> ''verified''
         then inviteCodesRemaining ag' =
                Some (max (case inviteCodesRemaining ag of None \<Rightarrow> 0 | Some n \<Rightarrow> n) 3)
              \<and> canInvite ag'
         else inviteCodesRemaining ag' = inviteCodesRemaining ag
              \<and> canInvite ag' = canInvite ag)"
proof -
  from assms(2) have live: "\<not> expiresAt r < now" by simp
  from assms(1) have "r \<in> set (requests d)" by (simp add: firstByState_Some)
  then have "r\<lparr>completedAt := Some now\<rparr> \<in>
      set (map (\<lambda>x. if rid x = rid r then x\<lparr>completedAt := Some now\<rparr> else x) (requests d))"
    by force
  then show ?thesis
    unfolding complete_success[OF assms(1) live assms(3) assms(4)] by simp
qed

theorem C3_witness:
  "(\<exists>d' ag'. completeVerification 5000 ''S'' ''abc123'' ''Jane Doe'' db_example =
        (d', CompleteSuccess 7 ''claw'' ''Jane Doe'')
      \<and> agents d' 7 = Some ag' \<and> verificationTier ag' = ''verified''
      \<and> inviteCodesRemaining agent_example = Some 1 \<and> inviteCodesRemaining ag' = Some 3
      \<and> canInvite ag')
   \<and> (\<exists>d' ag'. completeVerification 5000 ''S'' ''abc123'' ''Jane Doe'' db_email_example =
        (d', CompleteSuccess 7 ''claw'' ''Jane Doe'')
      \<and> agents d' 7 = Some ag' \<and> verificationType ag' = ''linkedin''
      \<and> inviteCodesRemaining ag' = Some 1 \<and> \<not> canInvite ag')"
proof -
  have live: "5000 \<le> expiresAt request_example" and fresh: "\<not> truthy_number (completedAt request_example)"
    by (simp_all add: request_example_def truthy_number_simps)
  show ?thesis
    using C3_completion_updates_request_and_agent[OF example_first live fresh example_agent,
        of "''abc123''" "''Jane Doe''"]
      C3_completion_updates_request_and_agent[OF example_email_first live fresh example_email_agent,
        of "''abc123''" "''Jane Doe''"]
    by (simp add: request_example_def agent_example_def agent_email_example_def) blast
qed

text \<open>
  C4. \<^verbatim>\<open>validateState\<close> maps the database to a result and nothing else. A state that no
  request carries gives \<^verbatim>\<open>Invalid or expired state token\<close>; otherwise, for the request
  \<open>r\<close> the lookup by state finds, the first of these that applies decides: the clock
  is past \<open>expiresAt r\<close>; \<open>completedAt r\<close> is set (the source's test
  \<^verbatim>\<open>if (request.completedAt)\<close>); the agent of \<open>r\<close> is missing; and if none applies the
  result is valid with the agent of \<open>r\<close>.
\<close>

theorem C4_validateState_decision_order:
  "((\<forall>r \<in> set (requests d). state r \<noteq> st)
      \<longrightarrow> validateState now st d = Invalid ''Invalid or expired state token'')
   \<and> (firstByState (requests d) st = Some r
      \<longrightarrow> validateState now st d =
           (if now > expiresAt r then Invalid ''Verification request expired''
            else if truthy_number (completedAt r) then Invalid ''Verification already completed''
            else if agents d (agentId r) = None then Invalid ''Agent not found''
            else Valid (agentId r)))"
  by (auto simp: validate_none validate_expired validate_completed validate_no_agent
      validate_valid)

theorem C4_witness:
  "validateState 2000 ''never issued'' db_example = Invalid ''Invalid or expired state token''
   \<and> validateState 2000 ''S'' db_example = Valid 7
   \<and> validateState 901001 ''S'' db_completed_example = Invalid ''Verification request expired''
   \<and> validateState 2000 ''S'' db_completed_example = Invalid ''Verification already completed''
   \<and> validateState 2000 ''S'' db_no_agent_example = Invalid ''Agent not found''"
proof -
  have h0: "\<forall>r \<in> set (requests db_example). state r \<noteq> ''never issued''"
    by (simp add: db_example_def request_example_def)
  have a: "validateState 2000 ''never issued'' db_example = Invalid ''Invalid or expired state token''"
    using C4_validateState_decision_order[of db_example "''never issued''" 2000] h0 by blast
  have b: "validateState 2000 ''S'' db_example = Valid 7"
    using C4_validateState_decision_order[of db_example "''S''" 2000 request_example]
      example_first example_agent
    by (simp add: request_example_def truthy_number_simps)
  have c: "validateState 901001 ''S'' db_completed_example = Invalid ''Verification request expired''"
    using C4_validateState_decision_order[of db_completed_example "''S''" 901001
        "request_example\<lparr>completedAt := Some 5000\<rparr>"] example_completed_first
    by (simp add: request_example_def)
  have e: "validateState 2000 ''S'' db_completed_example = Invalid ''Verification already completed''"
    using C4_validateState_decision_order[of db_completed_example "''S''" 2000
        "request_example\<lparr>completedAt := Some 5000\<rparr>"] example_completed_first
    by (simp add: request_example_def truthy_number_simps)
  have "firstByState (requests db_no_agent_example) ''S'' = Some request_example"
    and "agents db_no_agent_example (agentId request_example) = None"
    by (simp_all add: firstByState_def db_no_agent_example_def db_example_def
        request_example_def)
  then have f: "validateState 2000 ''S'' db_no_agent_example = Invalid ''Agent not found''"
    using C4_validateState_decision_order[of db_no_agent_example "''S''" 2000 request_example]
    by (simp add: request_example_def truthy_number_simps)
  from a b c e f show ?thesis by blast
qed

text \<open>
  C5. A request found by its state whose \<^verbatim>\<open>expiresAt\<close> is before the clock: both
  \<^verbatim>\<open>validateState\<close> and \<^verbatim>\<open>completeVerification\<close> answer
  \<^verbatim>\<open>Verification request expired\<close>. The completer writes \<^verbatim>\<open>State token expired\<close> into
  the \<^verbatim>\<open>error\<close> field of the request and changes nothing else: no \<^verbatim>\<open>completedAt\<close>
  of any request, no agent, no log entry. The validator returns a result only.
\<close>

theorem C5_expired_rejected_by_both:
  assumes "firstByState (requests d) st = Some r" and "expiresAt r < now"
  shows "validateState now st d = Invalid ''Verification request expired''
     \<and> (\<exists>d'. completeVerification now st lid lname d =
               (d', CompleteFailure ''Verification request expired'')
           \<and> requests d' =
                map (\<lambda>x. if rid x = rid r then x\<lparr>error := Some ''State token expired''\<rparr> else x)
                  (requests d)
           \<and> r\<lparr>error := Some ''State token expired''\<rparr> \<in> set (requests d')
           \<and> map completedAt (requests d') = map completedAt (requests d)
           \<and> agents d' = agents d \<and> activityLog d' = activityLog d)"
proof -
  from assms(1) have "r \<in> set (requests d)" by (simp add: firstByState_Some)
  then have "r\<lparr>error := Some ''State token expired''\<rparr> \<in>
      set (map (\<lambda>x. if rid x = rid r then x\<lparr>error := Some ''State token expired''\<rparr> else x)
            (requests d))"
    by force
  moreover have "map completedAt
      (map (\<lambda>x. if rid x = rid r then x\<lparr>error := Some ''State token expired''\<rparr> else x)
         (requests d)) = map completedAt (requests d)"
    by (induction "requests d") (simp_all add: comp_def)
  ultimately show ?thesis
    unfolding complete_expired[OF assms] validate_expired[OF assms]
    by (simp add: patchRequest_def)
qed

theorem C5_witness:
  "validateState 901001 ''S'' db_example = Invalid ''Verification request expired''
   \<and> (\<exists>d'. completeVerification 901001 ''S'' ''abc123'' ''Jane Doe'' db_example =
          (d', CompleteFailure ''Verification request expired'')
        \<and> requests d' = [request_example\<lparr>error := Some ''State token expired''\<rparr>]
        \<and> completedAt (request_example\<lparr>error := Some ''State token expired''\<rparr>) = None)"
proof -
  have old: "expiresAt request_example < 901001"
    by (simp add: request_example_def)
  show ?thesis
    using C5_expired_rejected_by_both[OF example_first old, of "''abc123''" "''Jane Doe''"]
    by (auto simp: request_example_def db_example_def)
qed



text \<open>
  C7, as amended. \<^verbatim>\<open>getVerificationStatus\<close> first asks whether the agent is verified
  through LinkedIn, that is whether its \<^verbatim>\<open>verified\<close> flag is set and its
  \<^verbatim>\<open>verificationType\<close> is \<^verbatim>\<open>linkedin\<close>; it then reports \<^verbatim>\<open>verified: true\<close> with the
  identity of the provider. In every other case (an agent verified by another method
  included) it reports \<^verbatim>\<open>verified: false\<close>. It then reports \<^verbatim>\<open>pending: true\<close>, with the
  \<^verbatim>\<open>expiresAt\<close> of such a request as \<^verbatim>\<open>pendingExpiresAt\<close>, when the agent has a request
  without \<^verbatim>\<open>completedAt\<close> whose \<^verbatim>\<open>expiresAt\<close> is after the clock, and
  \<^verbatim>\<open>{pending: false, verified: false}\<close> when every request of the agent without
  \<^verbatim>\<open>completedAt\<close> has its \<^verbatim>\<open>expiresAt\<close> before the clock. An unknown key and a missing
  agent give \<^verbatim>\<open>{pending: false, verified: false}\<close>.
\<close>

theorem C7_status_checks_linkedin_verification_first:
  "(verifyApiKey d apiKey = None \<longrightarrow>
      getVerificationStatus verifyApiKey now apiKey d = no_status)
   \<and> (verifyApiKey d apiKey = Some aid \<and> agents d aid = None \<longrightarrow>
      getVerificationStatus verifyApiKey now apiKey d = no_status)
   \<and> (verifyApiKey d apiKey = Some aid \<and> agents d aid = Some ag
       \<and> verified ag \<and> verificationType ag = ''linkedin'' \<longrightarrow>
      getVerificationStatus verifyApiKey now apiKey d =
        \<lparr>st_pending = False, st_verified = True, st_verificationType = Some ''linkedin'',
         st_linkedinId = linkedinId ag, st_linkedinName = linkedinName ag,
         st_verifiedAt = linkedinVerifiedAt ag, st_pendingExpiresAt = None\<rparr>)
   \<and> (verifyApiKey d apiKey = Some aid \<and> agents d aid = Some ag
       \<and> \<not> (verified ag \<and> verificationType ag = ''linkedin'') \<longrightarrow>
      \<not> st_verified (getVerificationStatus verifyApiKey now apiKey d)
      \<and> ((\<exists>r \<in> set (requests d). agentId r = aid \<and> completedAt r = None \<and> now < expiresAt r)
          \<longrightarrow> (\<exists>r \<in> set (requests d).
                 agentId r = aid \<and> completedAt r = None \<and> now < expiresAt r
                 \<and> getVerificationStatus verifyApiKey now apiKey d =
                     \<lparr>st_pending = True, st_verified = False, st_verificationType = None,
                      st_linkedinId = None, st_linkedinName = None, st_verifiedAt = None,
                      st_pendingExpiresAt = Some (expiresAt r)\<rparr>))
      \<and> ((\<forall>r \<in> set (requests d). agentId r = aid \<and> completedAt r = None \<longrightarrow> expiresAt r < now)
          \<longrightarrow> getVerificationStatus verifyApiKey now apiKey d = no_status))"
proof (intro conjI impI)
  assume "verifyApiKey d apiKey = None"
  then show "getVerificationStatus verifyApiKey now apiKey d = no_status"
    by (simp add: getVerificationStatus_def)
next
  assume "verifyApiKey d apiKey = Some aid \<and> agents d aid = None"
  then show "getVerificationStatus verifyApiKey now apiKey d = no_status"
    by (simp add: getVerificationStatus_def)
next
  assume "verifyApiKey d apiKey = Some aid \<and> agents d aid = Some ag
      \<and> verified ag \<and> verificationType ag = ''linkedin''"
  then show "getVerificationStatus verifyApiKey now apiKey d =
      \<lparr>st_pending = False, st_verified = True, st_verificationType = Some ''linkedin'',
       st_linkedinId = linkedinId ag, st_linkedinName = linkedinName ag,
       st_verifiedAt = linkedinVerifiedAt ag, st_pendingExpiresAt = None\<rparr>"
    by (simp add: getVerificationStatus_def)
next
  assume h: "verifyApiKey d apiKey = Some aid \<and> agents d aid = Some ag
      \<and> \<not> (verified ag \<and> verificationType ag = ''linkedin'')"
  let ?P = "\<lambda>r. agentId r = aid \<and> completedAt r = None \<and> now < expiresAt r"
  from h have eq: "getVerificationStatus verifyApiKey now apiKey d =
      (case find ?P (requests d) of
         Some r \<Rightarrow> \<lparr>st_pending = True, st_verified = False, st_verificationType = None,
                    st_linkedinId = None, st_linkedinName = None, st_verifiedAt = None,
                    st_pendingExpiresAt = Some (expiresAt r)\<rparr>
       | None \<Rightarrow> no_status)"
    by (auto simp: getVerificationStatus_def status_pending_find no_status_def
        split: option.splits)
  show "\<not> st_verified (getVerificationStatus verifyApiKey now apiKey d)"
    unfolding eq by (simp add: no_status_def split: option.splits)
  {
    assume "\<exists>r \<in> set (requests d). ?P r"
    then obtain r where found: "find ?P (requests d) = Some r"
      by (cases "find ?P (requests d)") (auto simp: find_None_iff)
    then have "r \<in> set (requests d) \<and> ?P r"
      by (auto simp: find_Some_iff)
    then show "\<exists>r \<in> set (requests d). agentId r = aid \<and> completedAt r = None \<and> now < expiresAt r
        \<and> getVerificationStatus verifyApiKey now apiKey d =
            \<lparr>st_pending = True, st_verified = False, st_verificationType = None,
             st_linkedinId = None, st_linkedinName = None, st_verifiedAt = None,
             st_pendingExpiresAt = Some (expiresAt r)\<rparr>"
      unfolding eq found by auto
  }
  {
    assume "\<forall>r \<in> set (requests d). agentId r = aid \<and> completedAt r = None \<longrightarrow> expiresAt r < now"
    then have "find ?P (requests d) = None"
      by (auto simp: find_None_iff)
    then show "getVerificationStatus verifyApiKey now apiKey d = no_status"
      unfolding eq by simp
  }
qed

theorem C7_witness:
  "getVerificationStatus verifyApiKey_example 2000 ''bad key'' db_example = no_status
   \<and> getVerificationStatus verifyApiKey_example 2000 ''key7'' db_no_agent_example = no_status
   \<and> getVerificationStatus verifyApiKey_example 2000 ''key7'' db_linkedin_example =
       \<lparr>st_pending = False, st_verified = True, st_verificationType = Some ''linkedin'',
        st_linkedinId = Some ''abc123'', st_linkedinName = Some ''Jane Doe'',
        st_verifiedAt = Some 5000, st_pendingExpiresAt = None\<rparr>
   \<and> getVerificationStatus verifyApiKey_example 2000 ''key7'' db_example =
       \<lparr>st_pending = True, st_verified = False, st_verificationType = None,
        st_linkedinId = None, st_linkedinName = None, st_verifiedAt = None,
        st_pendingExpiresAt = Some 901000\<rparr>
   \<and> getVerificationStatus verifyApiKey_example 901001 ''key7'' db_example = no_status"
proof -
  note c7 = C7_status_checks_linkedin_verification_first[where verifyApiKey = verifyApiKey_example]
  have a: "getVerificationStatus verifyApiKey_example 2000 ''bad key'' db_example = no_status"
    using c7[where apiKey = "''bad key''" and d = db_example] example_bad_key by blast
  have "agents db_no_agent_example 7 = None"
    by (simp add: db_no_agent_example_def)
  then have b: "getVerificationStatus verifyApiKey_example 2000 ''key7'' db_no_agent_example =
      no_status"
    using c7[where apiKey = "''key7''" and d = db_no_agent_example and aid = 7] example_key
    by blast
  have c: "getVerificationStatus verifyApiKey_example 2000 ''key7'' db_linkedin_example =
       \<lparr>st_pending = False, st_verified = True, st_verificationType = Some ''linkedin'',
        st_linkedinId = Some ''abc123'', st_linkedinName = Some ''Jane Doe'',
        st_verifiedAt = Some 5000, st_pendingExpiresAt = None\<rparr>"
    using c7[where apiKey = "''key7''" and d = db_linkedin_example and aid = 7 and now = 2000
        and ag = "agent_example\<lparr>verified := True, verificationType := ''linkedin'',
                             verificationTier := ''verified'',
                             linkedinId := Some ''abc123'',
                             linkedinName := Some ''Jane Doe'',
                             linkedinVerifiedAt := Some 5000\<rparr>"] example_key
    by (simp add: db_linkedin_example_def)
  have pre: "verifyApiKey_example db_example ''key7'' = Some 7 \<and> agents db_example 7 = Some agent_example
      \<and> \<not> (verified agent_example \<and> verificationType agent_example = ''linkedin'')"
    using example_key example_agent7 example_not_linkedin by blast
  have live: "\<exists>r \<in> set (requests db_example). agentId r = 7 \<and> completedAt r = None
      \<and> 2000 < expiresAt r"
    by (simp add: db_example_def request_example_def)
  have e: "getVerificationStatus verifyApiKey_example 2000 ''key7'' db_example =
       \<lparr>st_pending = True, st_verified = False, st_verificationType = None,
        st_linkedinId = None, st_linkedinName = None, st_verifiedAt = None,
        st_pendingExpiresAt = Some 901000\<rparr>"
    using c7[where apiKey = "''key7''" and d = db_example and aid = 7 and now = 2000
        and ag = agent_example] pre live
    by (auto simp: db_example_def request_example_def)
  have gone: "\<forall>r \<in> set (requests db_example). agentId r = 7 \<and> completedAt r = None \<longrightarrow>
      expiresAt r < 901001"
    by (simp add: db_example_def request_example_def)
  have f: "getVerificationStatus verifyApiKey_example 901001 ''key7'' db_example = no_status"
    using c7[where apiKey = "''key7''" and d = db_example and aid = 7 and now = 901001
        and ag = agent_example] pre gone
    by blast
  from a b c e f show ?thesis by blast
qed

text \<open>
  C7 as it is stated fails on an agent whose \<^verbatim>\<open>verified\<close> flag was set by another
  method: the key resolves to agent 7, whose flag is set and whose \<^verbatim>\<open>verificationType\<close>
  is \<^verbatim>\<open>email\<close>, and the status reports \<^verbatim>\<open>verified: false\<close> and \<^verbatim>\<open>pending: true\<close>.
\<close>

theorem C7_counterexample:
  "verifyApiKey_example db_email_example ''key7'' = Some 7
   \<and> agents db_email_example 7 = Some agent_email_example
   \<and> verified agent_email_example
   \<and> \<not> st_verified (getVerificationStatus verifyApiKey_example 2000 ''key7'' db_email_example)
   \<and> st_pending (getVerificationStatus verifyApiKey_example 2000 ''key7'' db_email_example)"
  by (simp add: getVerificationStatus_def verifyApiKey_example_def db_email_example_def
      db_example_def agent_email_example_def agent_example_def pendingRequests_def
      request_example_def no_status_def)

text \<open>
  C8, as amended. Each failure of \<^verbatim>\<open>startVerification\<close> is a returned value, with the
  database unchanged: an unknown key gives \<^verbatim>\<open>Invalid API key\<close>; a key of a missing agent
  gives \<^verbatim>\<open>Agent not found\<close>; an agent already verified through LinkedIn gives
  \<^verbatim>\<open>Agent is already LinkedIn verified\<close>; and, these three checks passed, the absence
  of any one of the three settings gives the not-configured error. Whatever the key, the
  absence of any one of the three settings makes the call fail with the database
  unchanged.
\<close>

theorem C8_start_failures_are_results:
  "(verifyApiKey d apiKey = None \<longrightarrow>
      startVerification verifyApiKey e rv now apiKey d = (d, StartFailure ''Invalid API key''))
   \<and> (verifyApiKey d apiKey = Some aid \<and> agents d aid = None \<longrightarrow>
      startVerification verifyApiKey e rv now apiKey d = (d, StartFailure ''Agent not found''))
   \<and> (verifyApiKey d apiKey = Some aid \<and> agents d aid = Some ag
       \<and> verificationType ag = ''linkedin'' \<and> verified ag \<longrightarrow>
      startVerification verifyApiKey e rv now apiKey d =
        (d, StartFailure ''Agent is already LinkedIn verified''))
   \<and> (verifyApiKey d apiKey = Some aid \<and> agents d aid = Some ag
       \<and> \<not> (verificationType ag = ''linkedin'' \<and> verified ag)
       \<and> (LINKEDIN_CLIENT_ID e = None \<or> LINKEDIN_CLIENT_SECRET e = None
          \<or> LINKEDIN_REDIRECT_URI e = None) \<longrightarrow>
      startVerification verifyApiKey e rv now apiKey d =
        (d, StartFailure ''LinkedIn OAuth not configured. Please set LINKEDIN_CLIENT_ID, LINKEDIN_CLIENT_SECRET, and LINKEDIN_REDIRECT_URI.''))
   \<and> (LINKEDIN_CLIENT_ID e = None \<or> LINKEDIN_CLIENT_SECRET e = None
       \<or> LINKEDIN_REDIRECT_URI e = None \<longrightarrow>
      (\<exists>err. startVerification verifyApiKey e rv now apiKey d = (d, StartFailure err)))"
proof (intro conjI impI)
  assume "verifyApiKey d apiKey = None"
  then show "startVerification verifyApiKey e rv now apiKey d = (d, StartFailure ''Invalid API key'')"
    by (rule start_invalid_key)
next
  assume "verifyApiKey d apiKey = Some aid \<and> agents d aid = None"
  then show "startVerification verifyApiKey e rv now apiKey d = (d, StartFailure ''Agent not found'')"
    by (simp add: start_no_agent)
next
  assume "verifyApiKey d apiKey = Some aid \<and> agents d aid = Some ag
      \<and> verificationType ag = ''linkedin'' \<and> verified ag"
  then show "startVerification verifyApiKey e rv now apiKey d =
      (d, StartFailure ''Agent is already LinkedIn verified'')"
    by (simp add: start_already_verified)
next
  assume h: "verifyApiKey d apiKey = Some aid \<and> agents d aid = Some ag
      \<and> \<not> (verificationType ag = ''linkedin'' \<and> verified ag)
      \<and> (LINKEDIN_CLIENT_ID e = None \<or> LINKEDIN_CLIENT_SECRET e = None
         \<or> LINKEDIN_REDIRECT_URI e = None)"
  then have "\<not> configured e" by (simp add: unset_not_configured)
  with h show "startVerification verifyApiKey e rv now apiKey d =
      (d, StartFailure ''LinkedIn OAuth not configured. Please set LINKEDIN_CLIENT_ID, LINKEDIN_CLIENT_SECRET, and LINKEDIN_REDIRECT_URI.'')"
    using start_not_configured[where verifyApiKey = verifyApiKey, of d apiKey aid ag e rv now]
    by blast
next
  assume "LINKEDIN_CLIENT_ID e = None \<or> LINKEDIN_CLIENT_SECRET e = None
      \<or> LINKEDIN_REDIRECT_URI e = None"
  then have "\<not> configured e" by (rule unset_not_configured)
  then show "\<exists>err. startVerification verifyApiKey e rv now apiKey d = (d, StartFailure err)"
    by (rule start_unconfigured_fails)
qed

theorem C8_witness:
  "startVerification verifyApiKey_example env_unset rv_example 2000 ''bad key'' db_example =
     (db_example, StartFailure ''Invalid API key'')
   \<and> startVerification verifyApiKey_example env_unset rv_example 2000 ''key7'' db_no_agent_example =
     (db_no_agent_example, StartFailure ''Agent not found'')
   \<and> startVerification verifyApiKey_example env_unset rv_example 2000 ''key7'' db_linkedin_example =
     (db_linkedin_example, StartFailure ''Agent is already LinkedIn verified'')
   \<and> startVerification verifyApiKey_example env_unset rv_example 2000 ''key7'' db_example =
     (db_example, StartFailure ''LinkedIn OAuth not configured. Please set LINKEDIN_CLIENT_ID, LINKEDIN_CLIENT_SECRET, and LINKEDIN_REDIRECT_URI.'')
   \<and> (\<exists>err. startVerification verifyApiKey_example (env_example\<lparr>LINKEDIN_REDIRECT_URI := None\<rparr>)
          rv_example 2000 ''bad key'' db_example = (db_example, StartFailure err))"
proof -
  note c8 = C8_start_failures_are_results[where verifyApiKey = verifyApiKey_example
      and rv = rv_example and now = 2000]
  have unset: "LINKEDIN_CLIENT_ID env_unset = None \<or> LINKEDIN_CLIENT_SECRET env_unset = None
      \<or> LINKEDIN_REDIRECT_URI env_unset = None"
    by (simp add: env_unset_def)
  have a: "startVerification verifyApiKey_example env_unset rv_example 2000 ''bad key'' db_example =
     (db_example, StartFailure ''Invalid API key'')"
    using c8[where apiKey = "''bad key''" and d = db_example and e = env_unset] example_bad_key
    by blast
  have "agents db_no_agent_example 7 = None"
    by (simp add: db_no_agent_example_def)
  then have b: "startVerification verifyApiKey_example env_unset rv_example 2000 ''key7''
      db_no_agent_example = (db_no_agent_example, StartFailure ''Agent not found'')"
    using c8[where apiKey = "''key7''" and d = db_no_agent_example and e = env_unset and aid = 7]
      example_key
    by blast
  have "\<exists>ag. agents db_linkedin_example 7 = Some ag \<and> verificationType ag = ''linkedin''
      \<and> verified ag"
    by (simp add: db_linkedin_example_def)
  then have c: "startVerification verifyApiKey_example env_unset rv_example 2000 ''key7''
      db_linkedin_example = (db_linkedin_example, StartFailure ''Agent is already LinkedIn verified'')"
    using c8[where apiKey = "''key7''" and d = db_linkedin_example and e = env_unset and aid = 7]
      example_key
    by blast
  have e: "startVerification verifyApiKey_example env_unset rv_example 2000 ''key7'' db_example =
     (db_example, StartFailure ''LinkedIn OAuth not configured. Please set LINKEDIN_CLIENT_ID, LINKEDIN_CLIENT_SECRET, and LINKEDIN_REDIRECT_URI.'')"
    using c8[where apiKey = "''key7''" and d = db_example and e = env_unset and aid = 7
        and ag = agent_example] example_key example_agent7 example_not_linkedin unset
    by blast
  have "LINKEDIN_REDIRECT_URI (env_example\<lparr>LINKEDIN_REDIRECT_URI := None\<rparr>) = None"
    by simp
  then have f: "\<exists>err. startVerification verifyApiKey_example
      (env_example\<lparr>LINKEDIN_REDIRECT_URI := None\<rparr>) rv_example 2000 ''bad key'' db_example =
      (db_example, StartFailure err)"
    using c8[where apiKey = "''bad key''" and d = db_example
        and e = "env_example\<lparr>LINKEDIN_REDIRECT_URI := None\<rparr>"]
    by blast
  from a b c e f show ?thesis by blast
qed

text \<open>
  C8 as it is stated fails on an unknown key: no setting is present, and the call fails
  with \<^verbatim>\<open>Invalid API key\<close>, which is not the not-configured error.
\<close>

theorem C8_counterexample:
  "LINKEDIN_CLIENT_ID env_unset = None
   \<and> startVerification verifyApiKey_example env_unset rv_example 2000 ''bad key'' db_example =
       (db_example, StartFailure ''Invalid API key'')
   \<and> startVerification verifyApiKey_example env_unset rv_example 2000 ''bad key'' db_example \<noteq>
       (db_example, StartFailure ''LinkedIn OAuth not configured. Please set LINKEDIN_CLIENT_ID, LINKEDIN_CLIENT_SECRET, and LINKEDIN_REDIRECT_URI.'')"
  by (simp add: env_unset_def startVerification_def verifyApiKey_example_def)

text \<open>
  C9. Whatever the random bytes, the state token has 32 characters, each an ASCII letter
  or digit. A successful \<^verbatim>\<open>startVerification\<close> returns \<^verbatim>\<open>expiresIn = 900\<close> and the URL
  that \<^verbatim>\<open>buildLinkedInAuthUrl\<close>, a function of the client id, the redirect URI and the
  token alone, computes: the authorization endpoint followed by the query
  \<^verbatim>\<open>response_type=code\<close>, \<^verbatim>\<open>client_id\<close>, \<^verbatim>\<open>redirect_uri\<close> (the configured redirect URI,
  form-urlencoded as \<^verbatim>\<open>URLSearchParams\<close> writes it, an encoding that no other URI
  shares), \<^verbatim>\<open>state\<close> (the token, verbatim) and
  \<^verbatim>\<open>scope=openid+profile+email\<close>. The request stored carries the same token and expires
  900000 milliseconds after the clock reading.
\<close>

theorem C9_state_token_and_authorization_url:
  "length (generateOAuthState rv) = 32
   \<and> list_all ascii_alphanumeric (generateOAuthState rv)
   \<and> (startVerification verifyApiKey e rv now apiKey d = (d', StartSuccess url ex msg) \<longrightarrow>
        ex = 900
        \<and> (\<exists>clientId redirectUri.
              LINKEDIN_CLIENT_ID e = Some clientId \<and> LINKEDIN_REDIRECT_URI e = Some redirectUri
              \<and> url = buildLinkedInAuthUrl clientId redirectUri (generateOAuthState rv)
              \<and> url = ''https://www.linkedin.com/oauth/v2/authorization?response_type=code&client_id=''
                    @ urlencode clientId @ ''&redirect_uri='' @ urlencode redirectUri
                    @ ''&state='' @ generateOAuthState rv @ ''&scope=openid+profile+email''
              \<and> (\<forall>u. urlencode u = urlencode redirectUri \<longrightarrow> u = redirectUri))
        \<and> (\<exists>r \<in> set (requests d'). state r = generateOAuthState rv \<and> completedAt r = None
              \<and> createdAt r = now \<and> expiresAt r = now + 900000))"
proof (intro conjI impI)
  show "length (generateOAuthState rv) = 32"
    by (rule length_generateOAuthState)
  show "list_all ascii_alphanumeric (generateOAuthState rv)"
    by (rule generateOAuthState_alphanumeric)
next
  assume run: "startVerification verifyApiKey e rv now apiKey d = (d', StartSuccess url ex msg)"
  then obtain aid ag where pre: "verifyApiKey d apiKey = Some aid" "agents d aid = Some ag"
      "\<not> (verificationType ag = ''linkedin'' \<and> verified ag)" "configured e"
    by (rule start_success_cases)
  note eq = start_success[where verifyApiKey = verifyApiKey, OF pre, of rv now]
  from run eq show "ex = 900" by simp
  from pre(4) obtain clientId redirectUri where env:
      "LINKEDIN_CLIENT_ID e = Some clientId" "LINKEDIN_REDIRECT_URI e = Some redirectUri"
    by (auto simp: configured_def falsy_string_def split: option.splits)
  from run eq env have url: "url = buildLinkedInAuthUrl clientId redirectUri (generateOAuthState rv)"
    by simp
  then have "url = ''https://www.linkedin.com/oauth/v2/authorization?response_type=code&client_id=''
      @ urlencode clientId @ ''&redirect_uri='' @ urlencode redirectUri
      @ ''&state='' @ generateOAuthState rv @ ''&scope=openid+profile+email''"
    by (simp only: buildLinkedInAuthUrl_eq urlencode_generateOAuthState)
  moreover have "\<forall>u. urlencode u = urlencode redirectUri \<longrightarrow> u = redirectUri"
    by (simp add: urlencode_inj)
  ultimately show "\<exists>clientId redirectUri.
      LINKEDIN_CLIENT_ID e = Some clientId \<and> LINKEDIN_REDIRECT_URI e = Some redirectUri
      \<and> url = buildLinkedInAuthUrl clientId redirectUri (generateOAuthState rv)
      \<and> url = ''https://www.linkedin.com/oauth/v2/authorization?response_type=code&client_id=''
            @ urlencode clientId @ ''&redirect_uri='' @ urlencode redirectUri
            @ ''&state='' @ generateOAuthState rv @ ''&scope=openid+profile+email''
      \<and> (\<forall>u. urlencode u = urlencode redirectUri \<longrightarrow> u = redirectUri)"
    using env url by blast
  from run eq have "newRequest d aid rv now \<in> set (requests d')"
    by auto
  then show "\<exists>r \<in> set (requests d'). state r = generateOAuthState rv \<and> completedAt r = None
      \<and> createdAt r = now \<and> expiresAt r = now + 900000"
    by (rule bexI[rotated]) (simp add: newRequest_def STATE_EXPIRATION_MS_def)
qed

theorem C9_witness:
  "generateOAuthState rv_example = ''ABCDEFGHIJKLMNOPQRSTUVWXYZabcdef''
   \<and> length ''ABCDEFGHIJKLMNOPQRSTUVWXYZabcdef'' = 32
   \<and> (\<exists>d'. startVerification verifyApiKey_example env_example rv_example 2000 ''key7'' db_example =
         (d', StartSuccess
            ''https://www.linkedin.com/oauth/v2/authorization?response_type=code&client_id=id&redirect_uri=https%3A%2F%2Fa.b%2Fcb&state=ABCDEFGHIJKLMNOPQRSTUVWXYZabcdef&scope=openid+profile+email''
            900 ''Have the agent owner visit this URL to complete LinkedIn verification''))"
proof -
  obtain d' url where run:
    "startVerification verifyApiKey_example env_example rv_example 2000 ''key7'' db_example =
       (d', StartSuccess url 900
          ''Have the agent owner visit this URL to complete LinkedIn verification'')"
    using example_start by blast
  have env: "LINKEDIN_CLIENT_ID env_example = Some ''id''"
      "LINKEDIN_REDIRECT_URI env_example = Some ''https://a.b/cb''"
    by (simp_all add: env_example_def)
  from C9_state_token_and_authorization_url[where verifyApiKey = verifyApiKey_example
      and e = env_example and rv = rv_example and now = 2000 and apiKey = "''key7''"
      and d = db_example and d' = d' and url = url and ex = 900
      and msg = "''Have the agent owner visit this URL to complete LinkedIn verification''"] run env
  have "length (generateOAuthState rv_example) = 32"
    and "url = ''https://www.linkedin.com/oauth/v2/authorization?response_type=code&client_id=''
          @ urlencode ''id'' @ ''&redirect_uri='' @ urlencode ''https://a.b/cb''
          @ ''&state='' @ generateOAuthState rv_example @ ''&scope=openid+profile+email''"
    by auto
  then have "url = ''https://www.linkedin.com/oauth/v2/authorization?response_type=code&client_id=id&redirect_uri=https%3A%2F%2Fa.b%2Fcb&state=ABCDEFGHIJKLMNOPQRSTUVWXYZabcdef&scope=openid+profile+email''"
    by (simp add: urlencode_example generateOAuthState_example)
  with run show ?thesis
    by (simp add: generateOAuthState_example)
qed

text \<open>
  C10. Expiry is strict. At the instant \<open>now = expiresAt r\<close> neither function answers
  \<^verbatim>\<open>Verification request expired\<close> for the request \<open>r\<close> found by the state. If \<open>r\<close>
  is not completed and its agent exists, the validator accepts it and the completer
  completes it: it succeeds, the request gets \<^verbatim>\<open>completedAt = now\<close> (and is what the
  state finds afterwards), and the agent is verified through LinkedIn on the verified
  tier. One millisecond later both answer \<^verbatim>\<open>Verification request expired\<close>, and the
  completer sets no \<^verbatim>\<open>completedAt\<close> and changes no agent.
\<close>

theorem C10_expiry_is_strict:
  assumes "firstByState (requests d) st = Some r" and "now = expiresAt r"
  shows "validateState now st d \<noteq> Invalid ''Verification request expired''
     \<and> snd (completeVerification now st lid lname d) \<noteq>
          CompleteFailure ''Verification request expired''
     \<and> (\<not> truthy_number (completedAt r) \<and> agents d (agentId r) = Some ag \<longrightarrow>
          validateState now st d = Valid (agentId r)
          \<and> snd (completeVerification now st lid lname d) =
               CompleteSuccess (agentId r) (handle ag) lname
          \<and> requests (fst (completeVerification now st lid lname d)) =
               map (\<lambda>x. if rid x = rid r then x\<lparr>completedAt := Some now\<rparr> else x) (requests d)
          \<and> r\<lparr>completedAt := Some now\<rparr> \<in>
               set (requests (fst (completeVerification now st lid lname d)))
          \<and> firstByState (requests (fst (completeVerification now st lid lname d))) st =
               Some (r\<lparr>completedAt := Some now\<rparr>)
          \<and> (\<exists>ag'. agents (fst (completeVerification now st lid lname d)) (agentId r) = Some ag'
                \<and> verified ag' \<and> verificationType ag' = ''linkedin''
                \<and> verificationTier ag' = ''verified'' \<and> linkedinId ag' = Some lid
                \<and> linkedinVerifiedAt ag' = Some now))
     \<and> validateState (now + 1) st d = Invalid ''Verification request expired''
     \<and> snd (completeVerification (now + 1) st lid lname d) =
          CompleteFailure ''Verification request expired''
     \<and> map completedAt (requests (fst (completeVerification (now + 1) st lid lname d))) =
          map completedAt (requests d)
     \<and> agents (fst (completeVerification (now + 1) st lid lname d)) = agents d"
proof -
  have live: "\<not> expiresAt r < now" and late: "expiresAt r < now + 1"
    using assms(2) by simp_all
  let ?f = "\<lambda>x. if rid x = rid r then x\<lparr>completedAt := Some now\<rparr> else x"
  have v: "validateState now st d \<noteq> Invalid ''Verification request expired''"
    using assms(1) live by (simp add: validateState_def split: option.splits)
  have c: "snd (completeVerification now st lid lname d) \<noteq>
      CompleteFailure ''Verification request expired''"
    using assms(1) live by (simp add: completeVerification_def Let_def split: option.splits)
  from assms(1) have mem: "r \<in> set (requests d)" by (simp add: firstByState_Some)
  then have mem': "r\<lparr>completedAt := Some now\<rparr> \<in> set (map ?f (requests d))"
    by force
  have "firstByState (map ?f (requests d)) st = map_option ?f (firstByState (requests d) st)"
    by (rule firstByState_map) simp
  with assms(1) have first': "firstByState (map ?f (requests d)) st =
      Some (r\<lparr>completedAt := Some now\<rparr>)"
    by simp
  have kept: "map completedAt
      (map (\<lambda>x. if rid x = rid r then x\<lparr>error := Some ''State token expired''\<rparr> else x)
         (requests d)) = map completedAt (requests d)"
    by (induction "requests d") (simp_all add: comp_def)
  have completes: "\<not> truthy_number (completedAt r) \<and> agents d (agentId r) = Some ag \<longrightarrow>
      validateState now st d = Valid (agentId r)
      \<and> snd (completeVerification now st lid lname d) =
           CompleteSuccess (agentId r) (handle ag) lname
      \<and> requests (fst (completeVerification now st lid lname d)) = map ?f (requests d)
      \<and> r\<lparr>completedAt := Some now\<rparr> \<in>
           set (requests (fst (completeVerification now st lid lname d)))
      \<and> firstByState (requests (fst (completeVerification now st lid lname d))) st =
           Some (r\<lparr>completedAt := Some now\<rparr>)
      \<and> (\<exists>ag'. agents (fst (completeVerification now st lid lname d)) (agentId r) = Some ag'
            \<and> verified ag' \<and> verificationType ag' = ''linkedin''
            \<and> verificationTier ag' = ''verified'' \<and> linkedinId ag' = Some lid
            \<and> linkedinVerifiedAt ag' = Some now)"
  proof
    assume h: "\<not> truthy_number (completedAt r) \<and> agents d (agentId r) = Some ag"
    then have fresh: "\<not> truthy_number (completedAt r)" and ag: "agents d (agentId r) = Some ag"
      by simp_all
    show "validateState now st d = Valid (agentId r)
      \<and> snd (completeVerification now st lid lname d) =
           CompleteSuccess (agentId r) (handle ag) lname
      \<and> requests (fst (completeVerification now st lid lname d)) = map ?f (requests d)
      \<and> r\<lparr>completedAt := Some now\<rparr> \<in>
           set (requests (fst (completeVerification now st lid lname d)))
      \<and> firstByState (requests (fst (completeVerification now st lid lname d))) st =
           Some (r\<lparr>completedAt := Some now\<rparr>)
      \<and> (\<exists>ag'. agents (fst (completeVerification now st lid lname d)) (agentId r) = Some ag'
            \<and> verified ag' \<and> verificationType ag' = ''linkedin''
            \<and> verificationTier ag' = ''verified'' \<and> linkedinId ag' = Some lid
            \<and> linkedinVerifiedAt ag' = Some now)"
      using mem' first'
      unfolding complete_success[OF assms(1) live fresh ag] validate_valid[OF assms(1) live fresh ag]
      by simp
  qed
  have expired: "validateState (now + 1) st d = Invalid ''Verification request expired''
     \<and> snd (completeVerification (now + 1) st lid lname d) =
          CompleteFailure ''Verification request expired''
     \<and> map completedAt (requests (fst (completeVerification (now + 1) st lid lname d))) =
          map completedAt (requests d)
     \<and> agents (fst (completeVerification (now + 1) st lid lname d)) = agents d"
    using kept
    unfolding complete_expired[OF assms(1) late] validate_expired[OF assms(1) late]
    by (simp add: patchRequest_def)
  from v c completes expired show ?thesis by blast
qed

theorem C10_witness:
  "validateState 901000 ''S'' db_example = Valid 7
   \<and> snd (completeVerification 901000 ''S'' ''abc123'' ''Jane Doe'' db_example) =
        CompleteSuccess 7 ''claw'' ''Jane Doe''
   \<and> requests (fst (completeVerification 901000 ''S'' ''abc123'' ''Jane Doe'' db_example)) =
        [request_example\<lparr>completedAt := Some 901000\<rparr>]
   \<and> validateState 901001 ''S'' db_example = Invalid ''Verification request expired''
   \<and> snd (completeVerification 901001 ''S'' ''abc123'' ''Jane Doe'' db_example) =
        CompleteFailure ''Verification request expired''
   \<and> map completedAt
        (requests (fst (completeVerification 901001 ''S'' ''abc123'' ''Jane Doe'' db_example))) =
        [None]"
proof -
  have at: "901000 = expiresAt request_example"
    and fresh: "\<not> truthy_number (completedAt request_example)"
    by (simp_all add: request_example_def truthy_number_simps)
  show ?thesis
    using C10_expiry_is_strict[OF example_first at, of "''abc123''" "''Jane Doe''" agent_example]
      fresh example_agent
    by (simp add: request_example_def agent_example_def db_example_def)
qed

end
